theory Spec2Isabelle
  imports Main "HOL-Library.AList"
begin

section \<open>Python values, dictionaries and exceptions\<close>

text \<open>
  The views of \<^verbatim>\<open>donate/payments/views.py\<close> pass dictionaries around: the form's
  \<^verbatim>\<open>cleaned_data\<close>, the parameters of a gateway call, the details stored in the
  session, the payload handed to the task queue. A dictionary is an association list in
  insertion order; storing under an existing key keeps the key's position, as Python does.
\<close>

datatype date = Date (year: int) (month: int) (day: int)

datatype pyval =
    PNone
  | PBool bool
  | PInt int
  | PStr string
  | PDecimal int int
  | PDate date
  | PTuple "pyval list"
  | PDict "(string \<times> pyval) list"

type_synonym dict = "(string \<times> pyval) list"

datatype exn =
    KeyError pyval
  | IndexError
  | TypeError
  | AttributeError string
  | InvalidAddress "string list"

text \<open>\<^verbatim>\<open>d[k]\<close>: raises KeyError when the key is missing.\<close>

definition getitem :: "dict \<Rightarrow> string \<Rightarrow> exn + pyval" where
  "getitem d k = (case map_of d k of None \<Rightarrow> Inl (KeyError (PStr k)) | Some v \<Rightarrow> Inr v)"

text \<open>\<^verbatim>\<open>d.get(k)\<close>: None when the key is missing.\<close>

definition dict_get :: "dict \<Rightarrow> string \<Rightarrow> pyval" where
  "dict_get d k = (case map_of d k of None \<Rightarrow> PNone | Some v \<Rightarrow> v)"

text \<open>\<^verbatim>\<open>d[k] = v\<close>.\<close>

definition setitem :: "dict \<Rightarrow> string \<Rightarrow> pyval \<Rightarrow> dict" where
  "setitem d k v = AList.update k v d"

text \<open>\<^verbatim>\<open>d.update(new)\<close>: the entries of \<open>new\<close> are stored one by one, in order.\<close>

definition dict_update :: "dict \<Rightarrow> dict \<Rightarrow> dict" where
  "dict_update d new = fold (\<lambda>(k, v) acc. AList.update k v acc) new d"

text \<open>\<^verbatim>\<open>v[k]\<close> on a value of any type: only a dictionary can be subscripted by a string.\<close>

definition subscript :: "pyval \<Rightarrow> string \<Rightarrow> exn + pyval" where
  "subscript v k = (case v of PDict d \<Rightarrow> getitem d k | _ \<Rightarrow> Inl TypeError)"

text \<open>Python's truth value, as \<^verbatim>\<open>not x\<close> and \<^verbatim>\<open>if x:\<close> test it.\<close>

fun truthy :: "pyval \<Rightarrow> bool" where
  "truthy PNone = False"
| "truthy (PBool b) = b"
| "truthy (PInt n) = (n \<noteq> 0)"
| "truthy (PStr s) = (s \<noteq> [])"
| "truthy (PDecimal c e) = (c \<noteq> 0)"
| "truthy (PDate d) = True"
| "truthy (PTuple xs) = (xs \<noteq> [])"
| "truthy (PDict d) = (d \<noteq> [])"

text \<open>
  \<^verbatim>\<open>gettext\<close> (imported as \<^verbatim>\<open>_\<close>) looks a message up in the catalogue of the active
  locale; the model is the source locale, where every message stands for itself.
\<close>

definition gettext :: "string \<Rightarrow> string" where
  "gettext msg = msg"

section \<open>Constants of the payments package\<close>

text \<open>
  Modelled from the spec: \<^verbatim>\<open>constants.py\<close> is not among the sources. The spec's data
  model gives the frequency as one of \<open>single\<close>, \<open>monthly\<close> and the payment method as
  one of \<open>card\<close>, \<open>paypal\<close>.
\<close>

definition FREQUENCY_SINGLE :: pyval where
  "FREQUENCY_SINGLE = PStr ''single''"

definition FREQUENCY_MONTHLY :: pyval where
  "FREQUENCY_MONTHLY = PStr ''monthly''"

definition METHOD_CARD :: pyval where
  "METHOD_CARD = PStr ''card''"

definition METHOD_PAYPAL :: pyval where
  "METHOD_PAYPAL = PStr ''paypal''"

section \<open>Gateway results\<close>

text \<open>
  The codes of \<^verbatim>\<open>braintree.ErrorCodes\<close> that the views name, and any other code the
  gateway may report.
\<close>

datatype error_code =
    CreditCard_CreditCardTypeIsNotAccepted
  | CreditCard_CvvIsInvalid
  | CreditCard_CvvVerificationFailed
  | CreditCard_ExpirationDateIsInvalid
  | CreditCard_NumberIsInvalid
  | Address_PostalCodeInvalidCharacters
  | Address_PostalCodeIsTooLong
  | OtherCode string

datatype validation_error = ValidationError (code: error_code) (attribute: string)

datatype error_result = ErrorResult (deep_errors: "validation_error list") (message: string)

datatype payment_method = PaymentMethod (token: pyval) (last_4: pyval)

datatype customer = Customer (payment_methods: "payment_method list")

datatype transaction =
  Transaction (transaction_id: pyval) (settlement_amount: pyval) (credit_card_last_4: pyval)

datatype subscription = Subscription (subscription_id: pyval)

datatype 'a result = SuccessfulResult 'a | Failed error_result

fun is_success :: "'a result \<Rightarrow> bool" where
  "is_success (SuccessfulResult x) = True"
| "is_success (Failed r) = False"

section \<open>Forms, responses and the card view\<close>

text \<open>
  A bound form after validation: its cleaned data and its non-field errors
  (\<^verbatim>\<open>form.add_error(None, msg)\<close> appends one).
\<close>

record form =
  cleaned_data :: dict
  non_field_errors :: "string list"

definition add_error :: "form \<Rightarrow> string \<Rightarrow> form" where
  "add_error f msg = f\<lparr>non_field_errors := non_field_errors f @ [msg]\<rparr>"

datatype location = Path string | Named string

text \<open>
  A response is a redirect, or a form view's template rendered with the form's errors and
  the \<^verbatim>\<open>gateway_address_errors\<close> of the context (\<open>None\<close> when the attribute was never
  set on the view), or a template rendered with the context entries its view adds.
\<close>

datatype response =
    HttpResponseRedirect location
  | FormResponse string "string list" "string list option"
  | TemplateResponse string dict
  | HttpResponseNotAllowed

text \<open>
  The instance attributes of a payment view: \<^verbatim>\<open>CardPaymentView.dispatch\<close> sets the first
  four and the error handling the last; \<^verbatim>\<open>PaypalPaymentView.form_valid\<close> sets the
  frequency, the currency and the source page itself.
\<close>

record payment_view =
  payment_frequency :: pyval
  amount :: pyval
  currency :: pyval
  source_page_id :: pyval
  gateway_address_errors :: "string list option"

definition CardPaymentView_form_invalid :: "payment_view \<Rightarrow> form \<Rightarrow> response" where
  "CardPaymentView_form_invalid self f =
     FormResponse ''payment/card.html'' (non_field_errors f) (gateway_address_errors self)"

section \<open>Error classification of the card flow\<close>

definition client_errors :: "(error_code \<times> string) list" where
  "client_errors =
     [(CreditCard_CreditCardTypeIsNotAccepted, gettext ''The type of card you used is not accepted.''),
      (CreditCard_CvvIsInvalid, gettext ''The CVV code you entered was invalid.''),
      (CreditCard_CvvVerificationFailed, gettext ''The CVV code you entered was invalid.''),
      (CreditCard_ExpirationDateIsInvalid, gettext ''The expiration date you entered was invalid.''),
      (CreditCard_NumberIsInvalid, gettext ''The credit card number you entered was invalid.'')]"

definition filter_user_card_errors :: "error_result \<Rightarrow> string list" where
  "filter_user_card_errors result =
     List.map_filter (\<lambda>error. map_of client_errors (code error)) (deep_errors result)"

definition address_errors :: "(error_code \<times> string) list" where
  "address_errors =
     [(Address_PostalCodeInvalidCharacters, gettext ''The post code you provided is not valid.''),
      (Address_PostalCodeIsTooLong, gettext ''The post code you provided is not valid.'')]"

text \<open>The loop of \<^verbatim>\<open>check_for_address_errors\<close>: it raises at the first address code.\<close>

fun check_errors_loop :: "validation_error list \<Rightarrow> exn + unit" where
  "check_errors_loop [] = Inr ()"
| "check_errors_loop (error # rest) =
     (case map_of address_errors (code error) of
        Some msg \<Rightarrow> Inl (InvalidAddress [msg])
      | None \<Rightarrow> check_errors_loop rest)"

definition check_for_address_errors :: "error_result \<Rightarrow> exn + unit" where
  "check_for_address_errors result = check_errors_loop (deep_errors result)"

definition default_error_message :: string where
  "default_error_message =
     gettext (''Sorry there was an error processing your payment. '' @
              ''Please try again later or use a different payment method.'')"

definition CardPaymentView_process_braintree_error_result ::
  "payment_view \<Rightarrow> error_result \<Rightarrow> form \<Rightarrow> exn + response" where
  "CardPaymentView_process_braintree_error_result self result f =
     (if deep_errors result \<noteq> [] then
        (case check_for_address_errors result of
           Inl (InvalidAddress errs) \<Rightarrow>
             Inr (CardPaymentView_form_invalid (self\<lparr>gateway_address_errors := Some errs\<rparr>) f)
         | Inl e \<Rightarrow> Inl e
         | Inr u \<Rightarrow>
            (let errors_to_report = filter_user_card_errors result in
             if errors_to_report \<noteq> [] then
               Inr (CardPaymentView_form_invalid self (fold (\<lambda>error_msg acc. add_error acc error_msg) errors_to_report f))
             else
               Inr (CardPaymentView_form_invalid self (add_error f default_error_message))))
      else
        Inr (CardPaymentView_form_invalid self (add_error f default_error_message)))"

section \<open>The environment and the effects of a request\<close>

text \<open>Sequencing of steps that may raise.\<close>

definition bind_exn :: "exn + 'a \<Rightarrow> ('a \<Rightarrow> exn + 'b) \<Rightarrow> exn + 'b" where
  "bind_exn m k = (case m of Inl e \<Rightarrow> Inl e | Inr x \<Rightarrow> k x)"

text \<open>\<^verbatim>\<open>d[k]\<close> where the key is itself a value: the dictionaries here have string keys.\<close>

definition getitem_val :: "dict \<Rightarrow> pyval \<Rightarrow> exn + pyval" where
  "getitem_val d k = (case k of PStr s \<Rightarrow> getitem d s | PDict x \<Rightarrow> Inl TypeError | _ \<Rightarrow> Inl (KeyError k))"

datatype gateway_call =
    Customer_create dict
  | Transaction_sale dict
  | Subscription_create dict

datatype task = send_transaction_to_basket | send_newsletter_subscription_to_basket

text \<open>
  What the views take from outside this file. The two settings tables, and the helpers
  \<^verbatim>\<open>freeze_transaction_details_for_session\<close> and \<^verbatim>\<open>get_suggested_monthly_upgrade\<close> of
  \<^verbatim>\<open>utils.py\<close>, are parameters. The gateway is a parameter too: for each of its three
  operations, the result it gives for the parameters it is called with. \<open>today\<close> is
  \<^verbatim>\<open>now().date()\<close>.
\<close>

record env =
  BRAINTREE_MERCHANT_ACCOUNTS :: dict
  BRAINTREE_PLANS :: dict
  freeze_transaction_details_for_session :: "dict \<Rightarrow> dict"
  get_suggested_monthly_upgrade :: "pyval \<Rightarrow> pyval \<Rightarrow> pyval"
  customer_response :: "dict \<Rightarrow> customer result"
  transaction_response :: "dict \<Rightarrow> transaction result"
  subscription_response :: "dict \<Rightarrow> subscription result"
  today :: date

datatype http_method = GET | POST

text \<open>
  A request: the locale, the full path, the cookies, the method, and for a POST the bound
  form with the outcome of its validation (the form classes are in \<^verbatim>\<open>forms.py\<close>).
\<close>

record request =
  LANGUAGE_CODE :: pyval
  get_full_path :: pyval
  COOKIES :: dict
  http_method :: http_method
  bound_form :: form
  form_is_valid :: bool

text \<open>
  The state a request works on: the session, the keys written to it, the gateway calls
  made (each with the \<^verbatim>\<open>is_success\<close> of its result), the jobs put on the task queue and
  the messages logged as errors.
\<close>

record world =
  session :: dict
  session_writes :: "string list"
  gateway_calls :: "(gateway_call \<times> bool) list"
  queue :: "(task \<times> dict) list"
  logger :: "string list"

definition request_start :: "dict \<Rightarrow> world" where
  "request_start s = \<lparr>session = s, session_writes = [], gateway_calls = [], queue = [], logger = []\<rparr>"

definition session_set :: "string \<Rightarrow> pyval \<Rightarrow> world \<Rightarrow> world" where
  "session_set k v w =
     w\<lparr>session := setitem (session w) k v, session_writes := session_writes w @ [k]\<rparr>"

definition enqueue :: "task \<Rightarrow> dict \<Rightarrow> world \<Rightarrow> world" where
  "enqueue t payload w = w\<lparr>queue := queue w @ [(t, payload)]\<rparr>"

definition logger_error :: "string \<Rightarrow> world \<Rightarrow> world" where
  "logger_error msg w = w\<lparr>logger := logger w @ [msg]\<rparr>"

definition gateway_customer_create :: "env \<Rightarrow> dict \<Rightarrow> world \<Rightarrow> customer result \<times> world" where
  "gateway_customer_create env params w =
     (let result = customer_response env params
      in (result, w\<lparr>gateway_calls := gateway_calls w @ [(Customer_create params, is_success result)]\<rparr>))"

definition gateway_transaction_sale :: "env \<Rightarrow> dict \<Rightarrow> world \<Rightarrow> transaction result \<times> world" where
  "gateway_transaction_sale env params w =
     (let result = transaction_response env params
      in (result, w\<lparr>gateway_calls := gateway_calls w @ [(Transaction_sale params, is_success result)]\<rparr>))"

definition gateway_subscription_create :: "env \<Rightarrow> dict \<Rightarrow> world \<Rightarrow> subscription result \<times> world" where
  "gateway_subscription_create env params w =
     (let result = subscription_response env params
      in (result, w\<lparr>gateway_calls := gateway_calls w @ [(Subscription_create params, is_success result)]\<rparr>))"

section \<open>BraintreePaymentMixin\<close>

definition get_custom_fields :: "form \<Rightarrow> dict" where
  "get_custom_fields f = []"

definition get_merchant_account_id :: "env \<Rightarrow> pyval \<Rightarrow> exn + pyval" where
  "get_merchant_account_id env currency_code = getitem_val (BRAINTREE_MERCHANT_ACCOUNTS env) currency_code"

definition get_plan_id :: "env \<Rightarrow> pyval \<Rightarrow> exn + pyval" where
  "get_plan_id env currency_code = getitem_val (BRAINTREE_PLANS env) currency_code"

text \<open>
  \<^verbatim>\<open>success\<close> calls three methods its subclasses override. The model takes what they
  return: \<open>details_for_session\<close> is the outcome of
  \<^verbatim>\<open>self.get_transaction_details_for_session(result, form, **kwargs)\<close>, \<open>source_page\<close> of
  \<^verbatim>\<open>self.get_source_page_id()\<close> and \<open>success_url\<close> of \<^verbatim>\<open>self.get_success_url()\<close>.
\<close>

definition success ::
  "env \<Rightarrow> request \<Rightarrow> exn + dict \<Rightarrow> pyval \<Rightarrow> location \<Rightarrow> bool \<Rightarrow> world \<Rightarrow> (exn + response) \<times> world" where
  "success env request details_for_session source_page success_url send_data_to_basket w =
     (case details_for_session of
        Inl e \<Rightarrow> (Inl e, w)
      | Inr details0 \<Rightarrow>
         (let details1 = setitem details0 ''source_page_id'' source_page;
              details2 = setitem details1 ''locale'' (LANGUAGE_CODE request);
              details = freeze_transaction_details_for_session env details2;
              w1 = session_set ''completed_transaction_details'' (PDict details) w;
              w2 = session_set ''source_page_id'' source_page w1;
              w3 = (if send_data_to_basket then enqueue send_transaction_to_basket details w2 else w2)
          in (Inr (HttpResponseRedirect success_url), w3)))"

section \<open>CardPaymentView\<close>

definition get_address_info :: "dict \<Rightarrow> exn + dict" where
  "get_address_info form_data =
     bind_exn (getitem form_data ''address_line_1'') (\<lambda>street_address.
     bind_exn (getitem form_data ''town'') (\<lambda>locality.
     bind_exn (getitem form_data ''post_code'') (\<lambda>postal_code.
     bind_exn (getitem form_data ''country'') (\<lambda>country_code_alpha2.
       (let address_info =
              [(''street_address'', street_address), (''locality'', locality),
               (''postal_code'', postal_code), (''country_code_alpha2'', country_code_alpha2)]
        in if truthy (dict_get address_info ''region'')
           then bind_exn (getitem form_data ''region'') (\<lambda>region.
                  Inr (setitem address_info ''region'' region))
           else Inr address_info)))))"

definition create_customer :: "env \<Rightarrow> form \<Rightarrow> world \<Rightarrow> (exn + customer result) \<times> world" where
  "create_customer env f w =
     (case bind_exn (getitem (cleaned_data f) ''first_name'') (\<lambda>first_name.
           bind_exn (getitem (cleaned_data f) ''last_name'') (\<lambda>last_name.
           bind_exn (getitem (cleaned_data f) ''email'') (\<lambda>email.
           bind_exn (getitem (cleaned_data f) ''braintree_nonce'') (\<lambda>nonce.
           bind_exn (get_address_info (cleaned_data f)) (\<lambda>address_info.
             Inr [(''first_name'', first_name), (''last_name'', last_name), (''email'', email),
                  (''payment_method_nonce'', nonce),
                  (''custom_fields'', PDict (get_custom_fields f)),
                  (''credit_card'', PDict [(''billing_address'', PDict address_info)])]))))) of
        Inl e \<Rightarrow> (Inl e, w)
      | Inr params \<Rightarrow>
         (case gateway_customer_create env params w of
            (SuccessfulResult c, w1) \<Rightarrow> (Inr (SuccessfulResult c), w1)
          | (Failed r, w1) \<Rightarrow>
              (Inr (Failed r), logger_error (''Failed to create Braintree customer: '' @ message r) w1)))"

definition CardPaymentView_get_transaction_details_for_session ::
  "payment_view \<Rightarrow> form \<Rightarrow> dict \<Rightarrow> exn + dict" where
  "CardPaymentView_get_transaction_details_for_session self f kwargs =
     bind_exn (getitem kwargs ''transaction_id'') (\<lambda>tid.
     bind_exn (getitem kwargs ''last_4'') (\<lambda>l4.
       Inr (dict_update (cleaned_data f)
              [(''transaction_id'', tid),
               (''settlement_amount'', dict_get kwargs ''settlement_amount''),
               (''last_4'', l4),
               (''payment_method'', METHOD_CARD),
               (''currency'', currency self),
               (''payment_frequency'', payment_frequency self),
               (''payment_method_token'', dict_get kwargs ''payment_method_token'')])))"

definition CardPaymentView_get_success_url :: "payment_view \<Rightarrow> location" where
  "CardPaymentView_get_success_url self =
     (if payment_frequency self = FREQUENCY_SINGLE then Named ''payments:card_upsell''
      else Named ''payments:newsletter_signup'')"

definition process_single_transaction ::
  "env \<Rightarrow> request \<Rightarrow> payment_view \<Rightarrow> form \<Rightarrow> bool \<Rightarrow> world \<Rightarrow> (exn + response) \<times> world" where
  "process_single_transaction env request self f send_data_to_basket w =
     (case create_customer env f w of
        (Inl e, w1) \<Rightarrow> (Inl e, w1)
      | (Inr (Failed r), w1) \<Rightarrow> (CardPaymentView_process_braintree_error_result self r f, w1)
      | (Inr (SuccessfulResult c), w1) \<Rightarrow>
         (case payment_methods c of
            [] \<Rightarrow> (Inl IndexError, w1)
          | payment_method # others \<Rightarrow>
             (case bind_exn (getitem (cleaned_data f) ''amount'') (\<lambda>amount.
                   bind_exn (get_merchant_account_id env (currency self)) (\<lambda>merchant_account_id.
                     Inr [(''amount'', amount), (''merchant_account_id'', merchant_account_id),
                          (''payment_method_token'', token payment_method),
                          (''options'', PDict [(''submit_for_settlement'', PBool True)])])) of
                Inl e \<Rightarrow> (Inl e, w1)
              | Inr params \<Rightarrow>
                 (case gateway_transaction_sale env params w1 of
                    (SuccessfulResult t, w2) \<Rightarrow>
                      success env request
                        (CardPaymentView_get_transaction_details_for_session self f
                           [(''payment_method_token'', token payment_method),
                            (''transaction_id'', transaction_id t),
                            (''settlement_amount'', settlement_amount t),
                            (''last_4'', credit_card_last_4 t)])
                        (source_page_id self) (CardPaymentView_get_success_url self)
                        send_data_to_basket w2
                  | (Failed r, w2) \<Rightarrow>
                      (CardPaymentView_process_braintree_error_result self r f,
                       logger_error (''Failed Braintree transaction: '' @ message r) w2)))))"

definition process_monthly_transaction ::
  "env \<Rightarrow> request \<Rightarrow> payment_view \<Rightarrow> form \<Rightarrow> bool \<Rightarrow> world \<Rightarrow> (exn + response) \<times> world" where
  "process_monthly_transaction env request self f send_data_to_basket w =
     (case create_customer env f w of
        (Inl e, w1) \<Rightarrow> (Inl e, w1)
      | (Inr (Failed r), w1) \<Rightarrow> (CardPaymentView_process_braintree_error_result self r f, w1)
      | (Inr (SuccessfulResult c), w1) \<Rightarrow>
         (case payment_methods c of
            [] \<Rightarrow> (Inl IndexError, w1)
          | payment_method # others \<Rightarrow>
             (case bind_exn (get_plan_id env (currency self)) (\<lambda>plan_id.
                   bind_exn (get_merchant_account_id env (currency self)) (\<lambda>merchant_account_id.
                   bind_exn (getitem (cleaned_data f) ''amount'') (\<lambda>price.
                     Inr [(''plan_id'', plan_id), (''merchant_account_id'', merchant_account_id),
                          (''payment_method_token'', token payment_method),
                          (''price'', price)]))) of
                Inl e \<Rightarrow> (Inl e, w1)
              | Inr params \<Rightarrow>
                 (case gateway_subscription_create env params w1 of
                    (SuccessfulResult sub, w2) \<Rightarrow>
                      success env request
                        (CardPaymentView_get_transaction_details_for_session self f
                           [(''transaction_id'', subscription_id sub),
                            (''last_4'', last_4 payment_method)])
                        (source_page_id self) (CardPaymentView_get_success_url self)
                        send_data_to_basket w2
                  | (Failed r, w2) \<Rightarrow>
                      (CardPaymentView_process_braintree_error_result self r f,
                       logger_error (''Failed to create Braintree subscription: '' @ message r) w2)))))"

definition CardPaymentView_form_valid ::
  "env \<Rightarrow> request \<Rightarrow> payment_view \<Rightarrow> form \<Rightarrow> bool \<Rightarrow> world \<Rightarrow> (exn + response) \<times> world" where
  "CardPaymentView_form_valid env request self f send_data_to_basket w =
     (if payment_frequency self = FREQUENCY_SINGLE
      then process_single_transaction env request self f send_data_to_basket w
      else process_monthly_transaction env request self f send_data_to_basket w)"

section \<open>PaypalPaymentView\<close>

text \<open>
  In \<^verbatim>\<open>PaypalPaymentView.form_valid\<close> the variable \<^verbatim>\<open>result\<close> holds the result of a sale
  or of a subscription, and \<^verbatim>\<open>get_transaction_details_for_session\<close> reads
  \<^verbatim>\<open>result.transaction\<close> or \<^verbatim>\<open>result.subscription\<close> from it.
\<close>

datatype entity = TransactionEntity transaction | SubscriptionEntity subscription

definition result_transaction :: "entity \<Rightarrow> exn + transaction" where
  "result_transaction r =
     (case r of TransactionEntity t \<Rightarrow> Inr t | SubscriptionEntity s \<Rightarrow> Inl (AttributeError ''transaction''))"

definition result_subscription :: "entity \<Rightarrow> exn + subscription" where
  "result_subscription r =
     (case r of SubscriptionEntity s \<Rightarrow> Inr s | TransactionEntity t \<Rightarrow> Inl (AttributeError ''subscription''))"

text \<open>
  The source ends the assignment of \<^verbatim>\<open>settlement_amount\<close> in the single branch with a
  comma, which makes the value a tuple of one element.
\<close>

definition PaypalPaymentView_get_transaction_details_for_session ::
  "payment_view \<Rightarrow> entity \<Rightarrow> form \<Rightarrow> exn + dict" where
  "PaypalPaymentView_get_transaction_details_for_session self result f =
     bind_exn
       (if payment_frequency self = FREQUENCY_SINGLE
        then bind_exn (result_transaction result) (\<lambda>t.
               Inr (transaction_id t, PTuple [settlement_amount t]))
        else bind_exn (result_subscription result) (\<lambda>sub.
               Inr (subscription_id sub, PNone)))
       (\<lambda>(tid, settlement).
          bind_exn (getitem (cleaned_data f) ''amount'') (\<lambda>amt.
            Inr [(''amount'', amt),
                 (''settlement_amount'', settlement),
                 (''transaction_id'', tid),
                 (''payment_method'', METHOD_PAYPAL),
                 (''currency'', currency self),
                 (''payment_frequency'', payment_frequency self)]))"

definition PaypalPaymentView_get_success_url :: "payment_view \<Rightarrow> location" where
  "PaypalPaymentView_get_success_url self =
     (if payment_frequency self = FREQUENCY_SINGLE then Named ''payments:paypal_upsell''
      else Named ''payments:newsletter_signup'')"

text \<open>\<^verbatim>\<open>self.get(self.request)\<close>: the PayPal page is rendered again.\<close>

definition PaypalPaymentView_process_braintree_error_result :: "error_result \<Rightarrow> form \<Rightarrow> response" where
  "PaypalPaymentView_process_braintree_error_result result f =
     FormResponse ''payment/paypal.html'' [] None"

text \<open>
  The end of \<^verbatim>\<open>PaypalPaymentView.form_valid\<close>, which both branches reach with their
  \<^verbatim>\<open>result\<close>.
\<close>

definition PaypalPaymentView_form_valid_end ::
  "env \<Rightarrow> request \<Rightarrow> payment_view \<Rightarrow> form \<Rightarrow> bool \<Rightarrow> entity result \<Rightarrow> world \<Rightarrow> (exn + response) \<times> world" where
  "PaypalPaymentView_form_valid_end env request self f send_data_to_basket result w =
     (case result of
        SuccessfulResult r \<Rightarrow>
          success env request (PaypalPaymentView_get_transaction_details_for_session self r f)
            (source_page_id self) (PaypalPaymentView_get_success_url self) send_data_to_basket w
      | Failed r \<Rightarrow>
          (Inr (PaypalPaymentView_process_braintree_error_result r f),
           logger_error (''Failed Braintree transaction: '' @ message r) w))"

definition PaypalPaymentView_form_valid ::
  "env \<Rightarrow> request \<Rightarrow> payment_view \<Rightarrow> form \<Rightarrow> bool \<Rightarrow> world \<Rightarrow> (exn + response) \<times> world" where
  "PaypalPaymentView_form_valid env request self0 f send_data_to_basket w =
     (case bind_exn (getitem (cleaned_data f) ''frequency'') (\<lambda>fr.
           bind_exn (getitem (cleaned_data f) ''currency'') (\<lambda>cu.
           bind_exn (getitem (cleaned_data f) ''source_page_id'') (\<lambda>sp.
             Inr (self0\<lparr>payment_frequency := fr, currency := cu, source_page_id := sp\<rparr>)))) of
        Inl e \<Rightarrow> (Inl e, w)
      | Inr self \<Rightarrow>
         (if payment_frequency self = FREQUENCY_SINGLE then
            (case bind_exn (getitem (cleaned_data f) ''amount'') (\<lambda>amt.
                  bind_exn (get_merchant_account_id env (currency self)) (\<lambda>merchant_account_id.
                  bind_exn (getitem (cleaned_data f) ''braintree_nonce'') (\<lambda>nonce.
                    Inr [(''amount'', amt), (''merchant_account_id'', merchant_account_id),
                         (''custom_fields'', PDict (get_custom_fields f)),
                         (''payment_method_nonce'', nonce),
                         (''options'', PDict [(''submit_for_settlement'', PBool True)])]))) of
               Inl e \<Rightarrow> (Inl e, w)
             | Inr params \<Rightarrow>
                (case gateway_transaction_sale env params w of
                   (SuccessfulResult t, w1) \<Rightarrow>
                     PaypalPaymentView_form_valid_end env request self f send_data_to_basket
                       (SuccessfulResult (TransactionEntity t)) w1
                 | (Failed r, w1) \<Rightarrow>
                     PaypalPaymentView_form_valid_end env request self f send_data_to_basket (Failed r) w1))
          else
            (case bind_exn (getitem (cleaned_data f) ''braintree_nonce'') (\<lambda>nonce.
                    Inr [(''payment_method_nonce'', nonce),
                         (''custom_fields'', PDict (get_custom_fields f))]) of
               Inl e \<Rightarrow> (Inl e, w)
             | Inr cparams \<Rightarrow>
                (case gateway_customer_create env cparams w of
                   (Failed r, w1) \<Rightarrow>
                     (Inr (PaypalPaymentView_process_braintree_error_result r f),
                      logger_error (''Failed to create Braintree customer: '' @ message r) w1)
                 | (SuccessfulResult c, w1) \<Rightarrow>
                    (case payment_methods c of
                       [] \<Rightarrow> (Inl IndexError, w1)
                     | payment_method # others \<Rightarrow>
                        (case bind_exn (get_plan_id env (currency self)) (\<lambda>plan_id.
                              bind_exn (get_merchant_account_id env (currency self)) (\<lambda>merchant_account_id.
                              bind_exn (getitem (cleaned_data f) ''amount'') (\<lambda>price.
                                Inr [(''plan_id'', plan_id), (''merchant_account_id'', merchant_account_id),
                                     (''payment_method_token'', token payment_method),
                                     (''price'', price)]))) of
                           Inl e \<Rightarrow> (Inl e, w1)
                         | Inr params \<Rightarrow>
                            (case gateway_subscription_create env params w1 of
                               (SuccessfulResult sub, w2) \<Rightarrow>
                                 PaypalPaymentView_form_valid_end env request self f send_data_to_basket
                                   (SuccessfulResult (SubscriptionEntity sub)) w2
                             | (Failed r, w2) \<Rightarrow>
                                 PaypalPaymentView_form_valid_end env request self f send_data_to_basket
                                   (Failed r) w2)))))))"

section \<open>Dates\<close>

text \<open>
  \<^verbatim>\<open>now().date() + relativedelta(months=1)\<close>. A date is a year, a month and a day of the
  proleptic Gregorian calendar; the year is an integer without the bound that Python's
  \<^verbatim>\<open>date\<close> puts at 9999. \<^verbatim>\<open>calendar.isleap\<close> and \<^verbatim>\<open>calendar.monthrange\<close> are as in
  the standard library, and adding a \<^verbatim>\<open>relativedelta\<close> of some months is as in
  \<^verbatim>\<open>dateutil\<close>: the month moves, the year follows when the month leaves 1..12, and the
  day is cut to the number of days of the month reached.
\<close>

definition isleap :: "int \<Rightarrow> bool" where
  "isleap y = (y mod 4 = 0 \<and> (y mod 100 \<noteq> 0 \<or> y mod 400 = 0))"

definition mdays :: "int list" where
  "mdays = [0, 31, 28, 31, 30, 31, 30, 31, 31, 30, 31, 30, 31]"

definition monthrange_days :: "int \<Rightarrow> int \<Rightarrow> int" where
  "monthrange_days y m = mdays ! nat m + (if m = 2 \<and> isleap y then 1 else 0)"

definition valid_date :: "date \<Rightarrow> bool" where
  "valid_date d =
     (1 \<le> month d \<and> month d \<le> 12 \<and> 1 \<le> day d \<and> day d \<le> monthrange_days (year d) (month d))"

definition add_relativedelta_months :: "date \<Rightarrow> int \<Rightarrow> date" where
  "add_relativedelta_months other months =
     (let m0 = month other + months;
          y = (if m0 > 12 then year other + 1 else if m0 < 1 then year other - 1 else year other);
          m = (if m0 > 12 then m0 - 12 else if m0 < 1 then m0 + 12 else m0)
      in Date y m (min (monthrange_days y m) (day other)))"

section \<open>The views that need a completed transaction\<close>

definition TransactionRequiredMixin_dispatch ::
  "(world \<Rightarrow> (exn + response) \<times> world) \<Rightarrow> world \<Rightarrow> (exn + response) \<times> world" where
  "TransactionRequiredMixin_dispatch super_dispatch w =
     (if \<not> truthy (dict_get (session w) ''completed_transaction_details'')
      then (Inr (HttpResponseRedirect (Path ''/'')), w)
      else super_dispatch w)"

text \<open>
  \<^verbatim>\<open>FormView\<close>: a GET renders the form, a POST validates the bound form and goes to
  \<^verbatim>\<open>form_valid\<close> or renders the form with its errors.
\<close>

definition FormView_dispatch ::
  "string \<Rightarrow> (form \<Rightarrow> world \<Rightarrow> (exn + response) \<times> world) \<Rightarrow> request \<Rightarrow> world \<Rightarrow> (exn + response) \<times> world" where
  "FormView_dispatch template_name form_valid request w =
     (case http_method request of
        GET \<Rightarrow> (Inr (FormResponse template_name [] None), w)
      | POST \<Rightarrow>
         (if form_is_valid request then form_valid (bound_form request) w
          else (Inr (FormResponse template_name (non_field_errors (bound_form request)) None), w)))"

definition upsell_error_message :: string where
  "upsell_error_message =
     gettext (''Sorry there was an error processing your payment. '' @ ''Please try again later.'')"

section \<open>CardUpsellView\<close>

definition CardUpsellView_get_transaction_details_for_session ::
  "subscription \<Rightarrow> form \<Rightarrow> dict \<Rightarrow> exn + dict" where
  "CardUpsellView_get_transaction_details_for_session sub f kwargs =
     bind_exn (getitem kwargs ''currency'') (\<lambda>cu.
       Inr (dict_update (cleaned_data f)
              [(''transaction_id'', subscription_id sub),
               (''payment_method'', METHOD_CARD),
               (''currency'', cu),
               (''payment_frequency'', FREQUENCY_MONTHLY)]))"

definition CardUpsellView_process_braintree_error_result :: "error_result \<Rightarrow> form \<Rightarrow> response" where
  "CardUpsellView_process_braintree_error_result result f =
     FormResponse ''payment/card_upsell.html'' (non_field_errors (add_error f upsell_error_message)) None"

definition CardUpsellView_form_valid ::
  "env \<Rightarrow> request \<Rightarrow> form \<Rightarrow> bool \<Rightarrow> world \<Rightarrow> (exn + response) \<times> world" where
  "CardUpsellView_form_valid env request f send_data_to_basket w =
     (case bind_exn (getitem (session w) ''completed_transaction_details'') (\<lambda>details.
           bind_exn (subscript details ''payment_method_token'') (\<lambda>payment_method_token.
           bind_exn (getitem (session w) ''completed_transaction_details'') (\<lambda>details'.
           bind_exn (subscript details' ''currency'') (\<lambda>cu.
           bind_exn (get_plan_id env cu) (\<lambda>plan_id.
           bind_exn (get_merchant_account_id env cu) (\<lambda>merchant_account_id.
           bind_exn (getitem (cleaned_data f) ''amount'') (\<lambda>price.
             Inr (cu,
                  [(''plan_id'', plan_id), (''merchant_account_id'', merchant_account_id),
                   (''payment_method_token'', payment_method_token),
                   (''first_billing_date'', PDate (add_relativedelta_months (today env) 1)),
                   (''price'', price)])))))))) of
        Inl e \<Rightarrow> (Inl e, w)
      | Inr (cu, params) \<Rightarrow>
         (case gateway_subscription_create env params w of
            (SuccessfulResult sub, w1) \<Rightarrow>
              success env request
                (CardUpsellView_get_transaction_details_for_session sub f [(''currency'', cu)])
                (dict_get (session w1) ''source_page_id'') (Named ''payments:newsletter_signup'')
                send_data_to_basket w1
          | (Failed r, w1) \<Rightarrow>
              (Inr (CardUpsellView_process_braintree_error_result r f),
               logger_error (''Failed to create Braintree subscription: '' @ message r) w1)))"

text \<open>
  \<^verbatim>\<open>CardUpsellView.dispatch\<close> is the first \<^verbatim>\<open>dispatch\<close> in the method resolution order
  of the class; \<^verbatim>\<open>super().dispatch\<close> at its end is \<^verbatim>\<open>TransactionRequiredMixin.dispatch\<close>,
  and the one after it that of \<^verbatim>\<open>FormView\<close>. The Python \<^verbatim>\<open>and\<close> reads the payment
  method only when the frequency is single.
\<close>

definition CardUpsellView_dispatch :: "env \<Rightarrow> request \<Rightarrow> world \<Rightarrow> (exn + response) \<times> world" where
  "CardUpsellView_dispatch env request w =
     (case bind_exn (getitem (session w) ''completed_transaction_details'') (\<lambda>last_transaction.
           bind_exn (subscript last_transaction ''payment_frequency'') (\<lambda>fr.
           bind_exn (if fr = FREQUENCY_SINGLE
                     then bind_exn (subscript last_transaction ''payment_method'') (\<lambda>m. Inr (m = METHOD_CARD))
                     else Inr False) (\<lambda>single_card.
             if \<not> single_card then Inr None
             else bind_exn (subscript last_transaction ''currency'') (\<lambda>cu.
                  bind_exn (subscript last_transaction ''amount'') (\<lambda>amt.
                    Inr (Some (get_suggested_monthly_upgrade env cu amt))))))) of
        Inl e \<Rightarrow> (Inl e, w)
      | Inr None \<Rightarrow> (Inr (HttpResponseRedirect (Named ''payments:newsletter_signup'')), w)
      | Inr (Some suggested_upgrade) \<Rightarrow>
         (if suggested_upgrade = PNone
          then (Inr (HttpResponseRedirect (Named ''payments:newsletter_signup'')), w)
          else TransactionRequiredMixin_dispatch
                 (FormView_dispatch ''payment/card_upsell.html''
                    (\<lambda>f. CardUpsellView_form_valid env request f True) request) w))"

section \<open>PaypalUpsellView\<close>

definition PaypalUpsellView_get_transaction_details_for_session ::
  "pyval \<Rightarrow> subscription \<Rightarrow> form \<Rightarrow> exn + dict" where
  "PaypalUpsellView_get_transaction_details_for_session self_currency sub f =
     Inr (dict_update (cleaned_data f)
            [(''transaction_id'', subscription_id sub),
             (''payment_method'', METHOD_PAYPAL),
             (''currency'', self_currency),
             (''payment_frequency'', FREQUENCY_MONTHLY)])"

definition PaypalUpsellView_process_braintree_error_result :: "error_result \<Rightarrow> form \<Rightarrow> response" where
  "PaypalUpsellView_process_braintree_error_result result f =
     FormResponse ''payment/paypal_upsell.html'' (non_field_errors (add_error f upsell_error_message)) None"

definition PaypalUpsellView_form_valid ::
  "env \<Rightarrow> request \<Rightarrow> form \<Rightarrow> bool \<Rightarrow> world \<Rightarrow> (exn + response) \<times> world" where
  "PaypalUpsellView_form_valid env request f send_data_to_basket w =
     (case bind_exn (getitem (cleaned_data f) ''currency'') (\<lambda>cu.
           bind_exn (getitem (cleaned_data f) ''braintree_nonce'') (\<lambda>nonce.
             Inr (cu, [(''payment_method_nonce'', nonce),
                       (''custom_fields'', PDict (get_custom_fields f))]))) of
        Inl e \<Rightarrow> (Inl e, w)
      | Inr (cu, cparams) \<Rightarrow>
         (case gateway_customer_create env cparams w of
            (Failed r, w1) \<Rightarrow>
              (Inr (PaypalUpsellView_process_braintree_error_result r f),
               logger_error (''Failed to create Braintree customer: '' @ message r) w1)
          | (SuccessfulResult c, w1) \<Rightarrow>
             (case payment_methods c of
                [] \<Rightarrow> (Inl IndexError, w1)
              | payment_method # others \<Rightarrow>
                 (case bind_exn (get_plan_id env cu) (\<lambda>plan_id.
                       bind_exn (get_merchant_account_id env cu) (\<lambda>merchant_account_id.
                       bind_exn (getitem (cleaned_data f) ''amount'') (\<lambda>price.
                         Inr [(''plan_id'', plan_id), (''merchant_account_id'', merchant_account_id),
                              (''payment_method_token'', token payment_method),
                              (''first_billing_date'', PDate (add_relativedelta_months (today env) 1)),
                              (''price'', price)]))) of
                    Inl e \<Rightarrow> (Inl e, w1)
                  | Inr params \<Rightarrow>
                     (case gateway_subscription_create env params w1 of
                        (SuccessfulResult sub, w2) \<Rightarrow>
                          success env request
                            (PaypalUpsellView_get_transaction_details_for_session cu sub f)
                            (dict_get (session w2) ''source_page_id'') (Named ''payments:newsletter_signup'')
                            send_data_to_basket w2
                      | (Failed r, w2) \<Rightarrow>
                          (Inr (PaypalUpsellView_process_braintree_error_result r f),
                           logger_error (''Failed Braintree transaction: '' @ message r) w2))))))"

definition PaypalUpsellView_dispatch :: "env \<Rightarrow> request \<Rightarrow> world \<Rightarrow> (exn + response) \<times> world" where
  "PaypalUpsellView_dispatch env request w =
     (case bind_exn (getitem (session w) ''completed_transaction_details'') (\<lambda>last_transaction.
           bind_exn (subscript last_transaction ''payment_frequency'') (\<lambda>fr.
           bind_exn (if fr = FREQUENCY_SINGLE
                     then bind_exn (subscript last_transaction ''payment_method'') (\<lambda>m. Inr (m = METHOD_PAYPAL))
                     else Inr False) (\<lambda>single_paypal.
             if \<not> single_paypal then Inr None
             else bind_exn (subscript last_transaction ''currency'') (\<lambda>cu.
                  bind_exn (subscript last_transaction ''amount'') (\<lambda>amt.
                    Inr (Some (get_suggested_monthly_upgrade env cu amt))))))) of
        Inl e \<Rightarrow> (Inl e, w)
      | Inr None \<Rightarrow> (Inr (HttpResponseRedirect (Named ''payments:newsletter_signup'')), w)
      | Inr (Some suggested_upgrade) \<Rightarrow>
         (if suggested_upgrade = PNone
          then (Inr (HttpResponseRedirect (Named ''payments:newsletter_signup'')), w)
          else TransactionRequiredMixin_dispatch
                 (FormView_dispatch ''payment/paypal_upsell.html''
                    (\<lambda>f. PaypalUpsellView_form_valid env request f True) request) w))"

section \<open>NewsletterSignupView and ThankYouView\<close>

text \<open>
  In \<^verbatim>\<open>NewsletterSignupView.form_valid\<close>, \<^verbatim>\<open>data\<close> is a copy of the cleaned data: the two
  keys stored in the copy are not stored in \<^verbatim>\<open>form.cleaned_data\<close>, which is what the
  source hands to \<^verbatim>\<open>queue.enqueue\<close>.
\<close>

definition NewsletterSignupView_form_valid ::
  "request \<Rightarrow> form \<Rightarrow> bool \<Rightarrow> world \<Rightarrow> (exn + response) \<times> world" where
  "NewsletterSignupView_form_valid request f send_data_to_basket w =
     (let w1 = (if send_data_to_basket then
                  (let data0 = cleaned_data f;
                       data1 = setitem data0 ''source_url'' (get_full_path request);
                       data = setitem data1 ''lang'' (LANGUAGE_CODE request)
                   in enqueue send_newsletter_subscription_to_basket (cleaned_data f) w)
                else w)
      in (Inr (HttpResponseRedirect (Named ''payments:completed'')), w1))"

definition NewsletterSignupView_dispatch :: "request \<Rightarrow> world \<Rightarrow> (exn + response) \<times> world" where
  "NewsletterSignupView_dispatch request =
     TransactionRequiredMixin_dispatch (\<lambda>w.
       (case http_method request of
          GET \<Rightarrow>
            (if dict_get (COOKIES request) ''subscribed'' = PStr ''1''
             then (Inr (HttpResponseRedirect (Named ''payments:completed'')), w)
             else (Inr (FormResponse ''payment/newsletter_signup.html'' [] None), w))
        | POST \<Rightarrow>
            FormView_dispatch ''payment/newsletter_signup.html''
              (\<lambda>f. NewsletterSignupView_form_valid request f True) request w))"

definition ThankYouView_dispatch :: "request \<Rightarrow> world \<Rightarrow> (exn + response) \<times> world" where
  "ThankYouView_dispatch request =
     TransactionRequiredMixin_dispatch (\<lambda>w.
       (case http_method request of
          GET \<Rightarrow>
            (case getitem (session w) ''completed_transaction_details'' of
               Inl e \<Rightarrow> (Inl e, w)
             | Inr details \<Rightarrow>
                 (Inr (TemplateResponse ''payment/thank_you.html''
                         [(''completed_transaction_details'', details)]), w))
        | POST \<Rightarrow> (Inr HttpResponseNotAllowed, w)))"

section \<open>The wording of the specification\<close>

text \<open>
  The card messages as the specification lists them, one per card-related code: the
  classification of the source is compared with this table.
\<close>

fun spec_card_message :: "error_code \<Rightarrow> string option" where
  "spec_card_message CreditCard_CreditCardTypeIsNotAccepted = Some ''The type of card you used is not accepted.''"
| "spec_card_message CreditCard_CvvIsInvalid = Some ''The CVV code you entered was invalid.''"
| "spec_card_message CreditCard_CvvVerificationFailed = Some ''The CVV code you entered was invalid.''"
| "spec_card_message CreditCard_ExpirationDateIsInvalid = Some ''The expiration date you entered was invalid.''"
| "spec_card_message CreditCard_NumberIsInvalid = Some ''The credit card number you entered was invalid.''"
| "spec_card_message other = None"

section \<open>Observations on a request's effects\<close>

text \<open>
  The terminal gateway call of a payment attempt is the charge or the subscription; the
  creation of the customer comes before it.
\<close>

definition is_terminal :: "gateway_call \<Rightarrow> bool" where
  "is_terminal c =
     (case c of Customer_create p \<Rightarrow> False | Transaction_sale p \<Rightarrow> True | Subscription_create p \<Rightarrow> True)"

definition terminal_success :: "world \<Rightarrow> bool" where
  "terminal_success w = list_ex (\<lambda>(c, ok). is_terminal c \<and> ok) (gateway_calls w)"

definition details_written :: "world \<Rightarrow> bool" where
  "details_written w = (''completed_transaction_details'' \<in> set (session_writes w))"

text \<open>
  What claim C1 says of one payment attempt, run on the session \<open>s\<close> from the start of
  its request: the details are written exactly when the terminal call succeeded, they are
  then in the session, and otherwise the session is the one the request began with,
  nothing was written to it and nothing was put on the queue.
\<close>

definition written_iff_success :: "(world \<Rightarrow> (exn + response) \<times> world) \<Rightarrow> dict \<Rightarrow> bool" where
  "written_iff_success attempt s =
     (let w = snd (attempt (request_start s)) in
        (details_written w \<longleftrightarrow> terminal_success w)
      \<and> (terminal_success w \<longrightarrow>
            (\<exists>details. map_of (session w) ''completed_transaction_details'' = Some (PDict details)))
      \<and> (\<not> terminal_success w \<longrightarrow> session w = s \<and> session_writes w = [] \<and> queue w = []))"

text \<open>
  One calendar month after a date, in the words of the specification: the next month (of
  the next year after December), on the same day of the month, or on the last day of
  that month when it has no such day. The last day of a month is written out here as
  the calendar has it (thirty days for April, June, September and November, February
  with 28 days or 29 in a leap year, 31 otherwise), not taken from the model of
  \<^verbatim>\<open>calendar.monthrange\<close>.
\<close>

definition spec_last_day_of_month :: "int \<Rightarrow> int \<Rightarrow> int" where
  "spec_last_day_of_month y m =
     (if m = 4 \<or> m = 6 \<or> m = 9 \<or> m = 11 then 30
      else if m = 2 then (if (y mod 4 = 0 \<and> y mod 100 \<noteq> 0) \<or> y mod 400 = 0 then 29 else 28)
      else 31)"

definition spec_one_calendar_month_after :: "date \<Rightarrow> date" where
  "spec_one_calendar_month_after d =
     (let y = (if month d = 12 then year d + 1 else year d);
          m = (if month d = 12 then 1 else month d + 1)
      in Date y m (if day d \<le> spec_last_day_of_month y m then day d
                   else spec_last_day_of_month y m))"

text \<open>
  The inputs on which a payment attempt goes all the way: the form has the fields the
  view reads, the settings know the currency, and the gateway accepts.
\<close>

definition has_keys :: "dict \<Rightarrow> string list \<Rightarrow> bool" where
  "has_keys d ks = list_all (\<lambda>k. map_of d k \<noteq> None) ks"

definition currency_configured :: "env \<Rightarrow> pyval \<Rightarrow> bool" where
  "currency_configured env cu =
     (\<not> isl (get_merchant_account_id env cu) \<and> \<not> isl (get_plan_id env cu))"

definition customer_accepted :: "env \<Rightarrow> bool" where
  "customer_accepted env =
     (\<forall>params. case customer_response env params of
                  SuccessfulResult c \<Rightarrow> payment_methods c \<noteq> []
                | Failed r \<Rightarrow> False)"

definition charge_accepted :: "env \<Rightarrow> bool" where
  "charge_accepted env = (\<forall>params. is_success (transaction_response env params))"

definition subscription_accepted :: "env \<Rightarrow> bool" where
  "subscription_accepted env = (\<forall>params. is_success (subscription_response env params))"

section \<open>Example inputs\<close>

definition example_env :: env where
  "example_env =
     \<lparr>BRAINTREE_MERCHANT_ACCOUNTS = [(''usd'', PStr ''usd-account'')],
      BRAINTREE_PLANS = [(''usd'', PStr ''usd-plan'')],
      freeze_transaction_details_for_session = (\<lambda>details. details),
      get_suggested_monthly_upgrade = (\<lambda>cu amt. PDecimal 5 0),
      customer_response =
        (\<lambda>params. SuccessfulResult (Customer [PaymentMethod (PStr ''token-1'') (PStr ''1111'')])),
      transaction_response =
        (\<lambda>params. SuccessfulResult (Transaction (PStr ''transaction-1'') (PDecimal 4873 (-2)) (PStr ''1111''))),
      subscription_response = (\<lambda>params. SuccessfulResult (Subscription (PStr ''subscription-1''))),
      today = Date 2019 1 31\<rparr>"

text \<open>The same environment with a gateway that refuses the charge: the card number is invalid.\<close>

definition declined_env :: env where
  "declined_env =
     example_env\<lparr>transaction_response :=
       (\<lambda>params. Failed (ErrorResult [ValidationError CreditCard_NumberIsInvalid ''number'']
                          ''Credit card number is invalid.''))\<rparr>"

definition example_request :: request where
  "example_request =
     \<lparr>LANGUAGE_CODE = PStr ''en-US'', get_full_path = PStr ''/en-US/'', COOKIES = [],
      http_method = GET, bound_form = \<lparr>cleaned_data = [], non_field_errors = []\<rparr>,
      form_is_valid = False\<rparr>"

definition example_card_view :: payment_view where
  "example_card_view =
     \<lparr>payment_frequency = FREQUENCY_SINGLE, amount = PDecimal 50 0, currency = PStr ''usd'',
      source_page_id = PInt 3, gateway_address_errors = None\<rparr>"

definition example_card_form :: form where
  "example_card_form =
     \<lparr>cleaned_data =
        [(''first_name'', PStr ''Alice''), (''last_name'', PStr ''Bob''),
         (''email'', PStr ''alice@example.org''), (''address_line_1'', PStr ''1 Oak Tree Hill''),
         (''town'', PStr ''New York''), (''post_code'', PStr ''10022''), (''country'', PStr ''US''),
         (''amount'', PDecimal 50 0), (''braintree_nonce'', PStr ''hello-braintree'')],
      non_field_errors = []\<rparr>"

definition example_paypal_form :: form where
  "example_paypal_form =
     \<lparr>cleaned_data =
        [(''braintree_nonce'', PStr ''hello-braintree''), (''amount'', PDecimal 50 0),
         (''currency'', PStr ''usd''), (''frequency'', PStr ''single''),
         (''source_page_id'', PInt 3)],
      non_field_errors = []\<rparr>"

definition example_upsell_form :: form where
  "example_upsell_form =
     \<lparr>cleaned_data =
        [(''amount'', PDecimal 5 0), (''currency'', PStr ''usd''),
         (''braintree_nonce'', PStr ''hello-again'')],
      non_field_errors = []\<rparr>"

text \<open>The session after a single card payment, and after a single PayPal payment.\<close>

definition example_card_details :: dict where
  "example_card_details =
     [(''amount'', PDecimal 50 0), (''transaction_id'', PStr ''transaction-1''),
      (''settlement_amount'', PDecimal 4873 (-2)), (''last_4'', PStr ''1111''),
      (''payment_method'', PStr ''card''), (''currency'', PStr ''usd''),
      (''payment_frequency'', PStr ''single''),
      (''payment_method_token'', PStr ''token-of-the-card''),
      (''source_page_id'', PInt 3), (''locale'', PStr ''en-US'')]"

definition example_card_session :: dict where
  "example_card_session =
     [(''completed_transaction_details'', PDict example_card_details),
      (''source_page_id'', PInt 3)]"

definition example_paypal_details :: dict where
  "example_paypal_details =
     [(''amount'', PDecimal 50 0), (''settlement_amount'', PTuple [PDecimal 4873 (-2)]),
      (''transaction_id'', PStr ''transaction-1''),
      (''payment_method'', PStr ''paypal''), (''currency'', PStr ''usd''),
      (''payment_frequency'', PStr ''single''),
      (''source_page_id'', PInt 3), (''locale'', PStr ''en-US'')]"

definition example_paypal_session :: dict where
  "example_paypal_session =
     [(''completed_transaction_details'', PDict example_paypal_details),
      (''source_page_id'', PInt 3)]"

definition example_monthly_view :: payment_view where
  "example_monthly_view = example_card_view\<lparr>payment_frequency := FREQUENCY_MONTHLY\<rparr>"

definition example_paypal_monthly_form :: form where
  "example_paypal_monthly_form =
     \<lparr>cleaned_data =
        [(''braintree_nonce'', PStr ''hello-braintree''), (''amount'', PDecimal 10 0),
         (''currency'', PStr ''usd''), (''frequency'', PStr ''monthly''),
         (''source_page_id'', PInt 3)],
      non_field_errors = []\<rparr>"

section \<open>Error classification: lemmas\<close>

lemma check_errors_loop_address:
  "\<exists>e \<in> set es. code e \<in> {Address_PostalCodeInvalidCharacters, Address_PostalCodeIsTooLong} \<Longrightarrow>
   check_errors_loop es = Inl (InvalidAddress [''The post code you provided is not valid.''])"
  by (induction es) (auto simp: address_errors_def gettext_def split: option.splits)

lemma check_errors_loop_none:
  "\<forall>e \<in> set es. code e \<notin> {Address_PostalCodeInvalidCharacters, Address_PostalCodeIsTooLong} \<Longrightarrow>
   check_errors_loop es = Inr ()"
  by (induction es) (auto simp: address_errors_def gettext_def split: option.splits)

lemma client_errors_spec: "map_of client_errors c = spec_card_message c"
  by (cases c) (simp_all add: client_errors_def gettext_def)

lemma filter_user_card_errors_spec:
  "filter_user_card_errors result = List.map_filter spec_card_message (map code (deep_errors result))"
  by (simp add: filter_user_card_errors_def client_errors_spec map_filter_def comp_def filter_map)

lemma fold_add_error:
  "non_field_errors (fold (\<lambda>error_msg acc. add_error acc error_msg) msgs f) = non_field_errors f @ msgs"
  by (induction msgs arbitrary: f) (simp_all add: add_error_def)

section \<open>Error classification: the claims\<close>

text \<open>
  C2. When the error list of a gateway result has an address code (postal code with
  invalid characters, or too long) anywhere in it, the card flow's classification is the
  address error: \<^verbatim>\<open>check_for_address_errors\<close> raises \<^verbatim>\<open>InvalidAddress\<close> with the post
  code message, the view answers with that message as its gateway address errors, and
  the form's own errors are what they were: no card message and no generic message is
  added, whatever card codes stand in the same list.
\<close>

theorem C2_address_errors_take_precedence:
  assumes "\<exists>e \<in> set (deep_errors result).
             code e \<in> {Address_PostalCodeInvalidCharacters, Address_PostalCodeIsTooLong}"
  shows "check_for_address_errors result =
           Inl (InvalidAddress [''The post code you provided is not valid.''])
       \<and> CardPaymentView_process_braintree_error_result self result f =
           Inr (FormResponse ''payment/card.html'' (non_field_errors f)
                  (Some [''The post code you provided is not valid.'']))"
proof -
  from assms have ne: "deep_errors result \<noteq> []" by auto
  have chk: "check_for_address_errors result =
               Inl (InvalidAddress [''The post code you provided is not valid.''])"
    unfolding check_for_address_errors_def using assms by (rule check_errors_loop_address)
  show ?thesis
    using ne chk
    by (simp add: CardPaymentView_process_braintree_error_result_def CardPaymentView_form_invalid_def)
qed

theorem C2_address_errors_take_precedence_witness:
  "CardPaymentView_process_braintree_error_result
     \<lparr>payment_frequency = PStr ''single'', amount = PDecimal 50 0, currency = PStr ''usd'',
      source_page_id = PInt 3, gateway_address_errors = None\<rparr>
     (ErrorResult [ValidationError CreditCard_NumberIsInvalid ''number'',
                   ValidationError Address_PostalCodeIsTooLong ''postal_code'',
                   ValidationError CreditCard_CvvIsInvalid ''cvv''] ''invalid'')
     \<lparr>cleaned_data = [(''amount'', PDecimal 50 0)], non_field_errors = []\<rparr> =
   Inr (FormResponse ''payment/card.html'' [] (Some [''The post code you provided is not valid.'']))"
  using C2_address_errors_take_precedence
    [of "ErrorResult [ValidationError CreditCard_NumberIsInvalid ''number'',
                      ValidationError Address_PostalCodeIsTooLong ''postal_code'',
                      ValidationError CreditCard_CvvIsInvalid ''cvv''] ''invalid''"
        "\<lparr>payment_frequency = PStr ''single'', amount = PDecimal 50 0, currency = PStr ''usd'',
          source_page_id = PInt 3, gateway_address_errors = None\<rparr>"
        "\<lparr>cleaned_data = [(''amount'', PDecimal 50 0)], non_field_errors = []\<rparr>"]
  by simp

text \<open>
  C7. When no code of the error list is an address code or one of the five card codes
  with a message (the list may be empty: a processor decline has no structured errors),
  the classification adds exactly one message to the form, the generic one, and sets no
  gateway address errors.
\<close>

theorem C7_generic_message_fallback:
  assumes "\<forall>e \<in> set (deep_errors result).
             code e \<notin> {Address_PostalCodeInvalidCharacters, Address_PostalCodeIsTooLong,
                        CreditCard_CreditCardTypeIsNotAccepted, CreditCard_CvvIsInvalid,
                        CreditCard_CvvVerificationFailed, CreditCard_ExpirationDateIsInvalid,
                        CreditCard_NumberIsInvalid}"
  shows "CardPaymentView_process_braintree_error_result self result f =
           Inr (FormResponse ''payment/card.html''
                  (non_field_errors f @
                     [''Sorry there was an error processing your payment. Please try again later or use a different payment method.''])
                  (gateway_address_errors self))"
proof -
  have chk: "check_for_address_errors result = Inr ()"
    unfolding check_for_address_errors_def using assms by (intro check_errors_loop_none) auto
  have "\<forall>e \<in> set (deep_errors result). spec_card_message (code e) = None"
  proof
    fix e assume "e \<in> set (deep_errors result)"
    with assms have "code e \<notin> {CreditCard_CreditCardTypeIsNotAccepted, CreditCard_CvvIsInvalid,
                        CreditCard_CvvVerificationFailed, CreditCard_ExpirationDateIsInvalid,
                        CreditCard_NumberIsInvalid}" by auto
    then show "spec_card_message (code e) = None" by (cases "code e") auto
  qed
  then have none: "filter_user_card_errors result = []"
    by (auto simp: filter_user_card_errors_spec map_filter_def filter_empty_conv)
  show ?thesis
    using chk none
    by (simp add: CardPaymentView_process_braintree_error_result_def CardPaymentView_form_invalid_def
        add_error_def default_error_message_def gettext_def)
qed

theorem C7_generic_message_fallback_witness:
  "CardPaymentView_process_braintree_error_result
     \<lparr>payment_frequency = PStr ''single'', amount = PDecimal 50 0, currency = PStr ''usd'',
      source_page_id = PInt 3, gateway_address_errors = None\<rparr>
     (ErrorResult [ValidationError (OtherCode ''91564'') ''payment_method_nonce''] ''cannot use nonce'')
     \<lparr>cleaned_data = [(''amount'', PDecimal 50 0)], non_field_errors = []\<rparr> =
   Inr (FormResponse ''payment/card.html''
          [''Sorry there was an error processing your payment. Please try again later or use a different payment method.'']
          None)
   \<and> CardPaymentView_process_braintree_error_result
     \<lparr>payment_frequency = PStr ''single'', amount = PDecimal 50 0, currency = PStr ''usd'',
      source_page_id = PInt 3, gateway_address_errors = None\<rparr>
     (ErrorResult [] ''Processor declined'')
     \<lparr>cleaned_data = [(''amount'', PDecimal 50 0)], non_field_errors = []\<rparr> =
   Inr (FormResponse ''payment/card.html''
          [''Sorry there was an error processing your payment. Please try again later or use a different payment method.'']
          None)"
  using C7_generic_message_fallback
    [of "ErrorResult [ValidationError (OtherCode ''91564'') ''payment_method_nonce''] ''cannot use nonce''"
        "\<lparr>payment_frequency = PStr ''single'', amount = PDecimal 50 0, currency = PStr ''usd'',
          source_page_id = PInt 3, gateway_address_errors = None\<rparr>"
        "\<lparr>cleaned_data = [(''amount'', PDecimal 50 0)], non_field_errors = []\<rparr>"]
    C7_generic_message_fallback
    [of "ErrorResult [] ''Processor declined''"
        "\<lparr>payment_frequency = PStr ''single'', amount = PDecimal 50 0, currency = PStr ''usd'',
          source_page_id = PInt 3, gateway_address_errors = None\<rparr>"
        "\<lparr>cleaned_data = [(''amount'', PDecimal 50 0)], non_field_errors = []\<rparr>"]
  by simp

text \<open>
  C8. When the error list has no address code: \<^verbatim>\<open>filter_user_card_errors\<close> gives, in the
  order of the list, the message of every code that the specification's table of card
  messages maps; when there is such a message, these messages are what the form gets, in
  that order; a list with the code for an invalid number yields the message
  \<open>The credit card number you entered was invalid.\<close>, and a list with that code alone
  yields exactly that one message.
\<close>

theorem C8_card_messages_in_order:
  assumes "\<forall>e \<in> set (deep_errors result).
             code e \<notin> {Address_PostalCodeInvalidCharacters, Address_PostalCodeIsTooLong}"
  shows "filter_user_card_errors result =
           List.map_filter spec_card_message (map code (deep_errors result))
       \<and> (filter_user_card_errors result \<noteq> [] \<longrightarrow>
            CardPaymentView_process_braintree_error_result self result f =
              Inr (FormResponse ''payment/card.html''
                     (non_field_errors f @ filter_user_card_errors result) (gateway_address_errors self)))
       \<and> (CreditCard_NumberIsInvalid \<in> code ` set (deep_errors result) \<longrightarrow>
            ''The credit card number you entered was invalid.'' \<in> set (filter_user_card_errors result))
       \<and> (map code (deep_errors result) = [CreditCard_NumberIsInvalid] \<longrightarrow>
            CardPaymentView_process_braintree_error_result self result f =
              Inr (FormResponse ''payment/card.html''
                     (non_field_errors f @ [''The credit card number you entered was invalid.''])
                     (gateway_address_errors self)))"
proof -
  have chk: "check_for_address_errors result = Inr ()"
    unfolding check_for_address_errors_def using assms by (rule check_errors_loop_none)
  have resp: "filter_user_card_errors result \<noteq> [] \<Longrightarrow>
            CardPaymentView_process_braintree_error_result self result f =
              Inr (FormResponse ''payment/card.html''
                     (non_field_errors f @ filter_user_card_errors result) (gateway_address_errors self))"
  proof -
    assume ne: "filter_user_card_errors result \<noteq> []"
    then have "deep_errors result \<noteq> []"
      by (auto simp: filter_user_card_errors_def map_filter_def)
    with ne chk show ?thesis
      by (simp add: CardPaymentView_process_braintree_error_result_def CardPaymentView_form_invalid_def
          fold_add_error Let_def)
  qed
  have mem: "CreditCard_NumberIsInvalid \<in> code ` set (deep_errors result) \<Longrightarrow>
            ''The credit card number you entered was invalid.'' \<in> set (filter_user_card_errors result)"
    by (force simp: filter_user_card_errors_spec map_filter_def)
  have single: "map code (deep_errors result) = [CreditCard_NumberIsInvalid] \<Longrightarrow>
       filter_user_card_errors result = [''The credit card number you entered was invalid.'']"
    by (simp add: filter_user_card_errors_spec map_filter_def)
  show ?thesis
    using resp mem single filter_user_card_errors_spec by auto
qed

theorem C8_card_messages_in_order_witness:
  "filter_user_card_errors
     (ErrorResult [ValidationError CreditCard_ExpirationDateIsInvalid ''expiration_date'',
                   ValidationError (OtherCode ''91564'') ''payment_method_nonce'',
                   ValidationError CreditCard_NumberIsInvalid ''number''] ''invalid'') =
     [''The expiration date you entered was invalid.'',
      ''The credit card number you entered was invalid.'']
   \<and> CardPaymentView_process_braintree_error_result
     \<lparr>payment_frequency = PStr ''single'', amount = PDecimal 50 0, currency = PStr ''usd'',
      source_page_id = PInt 3, gateway_address_errors = None\<rparr>
     (ErrorResult [ValidationError CreditCard_ExpirationDateIsInvalid ''expiration_date'',
                   ValidationError (OtherCode ''91564'') ''payment_method_nonce'',
                   ValidationError CreditCard_NumberIsInvalid ''number''] ''invalid'')
     \<lparr>cleaned_data = [(''amount'', PDecimal 50 0)], non_field_errors = []\<rparr> =
   Inr (FormResponse ''payment/card.html''
          [''The expiration date you entered was invalid.'',
           ''The credit card number you entered was invalid.''] None)
   \<and> CardPaymentView_process_braintree_error_result
     \<lparr>payment_frequency = PStr ''single'', amount = PDecimal 50 0, currency = PStr ''usd'',
      source_page_id = PInt 3, gateway_address_errors = None\<rparr>
     (ErrorResult [ValidationError CreditCard_NumberIsInvalid ''number''] ''invalid'')
     \<lparr>cleaned_data = [(''amount'', PDecimal 50 0)], non_field_errors = []\<rparr> =
   Inr (FormResponse ''payment/card.html'' [''The credit card number you entered was invalid.''] None)"
  using C8_card_messages_in_order
    [of "ErrorResult [ValidationError CreditCard_ExpirationDateIsInvalid ''expiration_date'',
                      ValidationError (OtherCode ''91564'') ''payment_method_nonce'',
                      ValidationError CreditCard_NumberIsInvalid ''number''] ''invalid''"
        "\<lparr>payment_frequency = PStr ''single'', amount = PDecimal 50 0, currency = PStr ''usd'',
          source_page_id = PInt 3, gateway_address_errors = None\<rparr>"
        "\<lparr>cleaned_data = [(''amount'', PDecimal 50 0)], non_field_errors = []\<rparr>"]
    C8_card_messages_in_order
    [of "ErrorResult [ValidationError CreditCard_NumberIsInvalid ''number''] ''invalid''"
        "\<lparr>payment_frequency = PStr ''single'', amount = PDecimal 50 0, currency = PStr ''usd'',
          source_page_id = PInt 3, gateway_address_errors = None\<rparr>"
        "\<lparr>cleaned_data = [(''amount'', PDecimal 50 0)], non_field_errors = []\<rparr>"]
  by (simp add: map_filter_def)

section \<open>Requests: lemmas\<close>

lemmas effect_defs = session_set_def enqueue_def logger_error_def gateway_customer_create_def
  gateway_transaction_sale_def gateway_subscription_create_def

lemmas example_defs = example_env_def declined_env_def example_request_def example_card_view_def
  example_card_form_def example_paypal_form_def example_upsell_form_def example_card_details_def
  example_card_session_def example_paypal_details_def example_paypal_session_def

lemmas constant_defs = FREQUENCY_SINGLE_def FREQUENCY_MONTHLY_def METHOD_CARD_def METHOD_PAYPAL_def
  gettext_def

lemmas dict_defs = getitem_def getitem_val_def dict_get_def setitem_def dict_update_def subscript_def

lemma bind_exn_simps:
  "bind_exn (Inl e) k = Inl e"
  "bind_exn (Inr x) k = k x"
  by (simp_all add: bind_exn_def)

section \<open>The guards of the upsell, newsletter and thank-you views\<close>

text \<open>
  C3. The claim is that an upsell step or the thank-you step, asked for with a session
  that has no completed transaction, redirects to the entry point and raises nothing.
  The thank-you view does: its first \<^verbatim>\<open>dispatch\<close> is the guard of
  \<^verbatim>\<open>TransactionRequiredMixin\<close>. The two upsell views do not: their own \<^verbatim>\<open>dispatch\<close>
  runs before the guard and subscripts the session, so that on a session without the
  record both raise \<^verbatim>\<open>KeyError\<close>, for any request and any settings.
\<close>

theorem C3_upsell_without_transaction_raises:
  "CardUpsellView_dispatch env request (request_start []) =
     (Inl (KeyError (PStr ''completed_transaction_details'')), request_start [])
   \<and> PaypalUpsellView_dispatch env request (request_start []) =
     (Inl (KeyError (PStr ''completed_transaction_details'')), request_start [])
   \<and> ThankYouView_dispatch request (request_start []) =
     (Inr (HttpResponseRedirect (Path ''/'')), request_start [])"
  by (simp add: CardUpsellView_dispatch_def PaypalUpsellView_dispatch_def ThankYouView_dispatch_def
      TransactionRequiredMixin_dispatch_def request_start_def getitem_def dict_get_def bind_exn_simps)

text \<open>
  C4. Let the session hold completed transaction details with a payment frequency. When
  the frequency is not single, or the details have a payment method other than card, the
  card upsell view redirects to the newsletter step and leaves the state of the request
  as it was: no gateway call is made (nor anything written or queued). The same holds of
  the PayPal upsell view with PayPal as the expected method. In particular the card
  upsell view redirects when the payment method is PayPal.
\<close>

theorem C4_upsell_ineligible_redirects:
  assumes "map_of (session w) ''completed_transaction_details'' = Some (PDict d)"
      and "map_of d ''payment_frequency'' = Some fr"
  shows "(fr \<noteq> FREQUENCY_SINGLE \<or> (\<exists>m. map_of d ''payment_method'' = Some m \<and> m \<noteq> METHOD_CARD) \<longrightarrow>
            CardUpsellView_dispatch env request w =
              (Inr (HttpResponseRedirect (Named ''payments:newsletter_signup'')), w))
       \<and> (fr \<noteq> FREQUENCY_SINGLE \<or> (\<exists>m. map_of d ''payment_method'' = Some m \<and> m \<noteq> METHOD_PAYPAL) \<longrightarrow>
            PaypalUpsellView_dispatch env request w =
              (Inr (HttpResponseRedirect (Named ''payments:newsletter_signup'')), w))
       \<and> (map_of d ''payment_method'' = Some METHOD_PAYPAL \<longrightarrow>
            CardUpsellView_dispatch env request w =
              (Inr (HttpResponseRedirect (Named ''payments:newsletter_signup'')), w))"
  using assms
  by (auto simp: CardUpsellView_dispatch_def PaypalUpsellView_dispatch_def getitem_def subscript_def
      bind_exn_simps METHOD_CARD_def METHOD_PAYPAL_def)

theorem C4_upsell_ineligible_redirects_witness:
  "CardUpsellView_dispatch example_env
     (example_request\<lparr>http_method := POST, bound_form := example_upsell_form, form_is_valid := True\<rparr>)
     (request_start example_paypal_session) =
     (Inr (HttpResponseRedirect (Named ''payments:newsletter_signup'')),
      request_start example_paypal_session)
   \<and> gateway_calls (snd (CardUpsellView_dispatch example_env
        (example_request\<lparr>http_method := POST, bound_form := example_upsell_form, form_is_valid := True\<rparr>)
        (request_start example_paypal_session))) = []
   \<and> PaypalUpsellView_dispatch example_env
     (example_request\<lparr>http_method := POST, bound_form := example_upsell_form, form_is_valid := True\<rparr>)
     (request_start example_card_session) =
     (Inr (HttpResponseRedirect (Named ''payments:newsletter_signup'')),
      request_start example_card_session)"
  using C4_upsell_ineligible_redirects
    [of "request_start example_paypal_session" example_paypal_details "PStr ''single''" example_env
        "example_request\<lparr>http_method := POST, bound_form := example_upsell_form, form_is_valid := True\<rparr>"]
    C4_upsell_ineligible_redirects
    [of "request_start example_card_session" example_card_details "PStr ''single''" example_env
        "example_request\<lparr>http_method := POST, bound_form := example_upsell_form, form_is_valid := True\<rparr>"]
  by (simp add: request_start_def example_paypal_session_def example_paypal_details_def
      example_card_session_def example_card_details_def constant_defs)

section \<open>The settlement amount and the newsletter payload\<close>

text \<open>
  C9. The claim is that the settlement amount stored for a successful single
  transaction is a scalar, in the same representation for card and PayPal. For a single
  PayPal payment the details that \<^verbatim>\<open>get_transaction_details_for_session\<close> builds hold a
  tuple of one element, the transaction's settlement amount; for a single card payment
  they hold the settlement amount itself.
\<close>

theorem C9_paypal_settlement_amount_is_a_tuple:
  "PaypalPaymentView_get_transaction_details_for_session
     (self\<lparr>payment_frequency := FREQUENCY_SINGLE\<rparr>) (TransactionEntity t)
     \<lparr>cleaned_data = [(''amount'', a)], non_field_errors = []\<rparr> =
   Inr [(''amount'', a), (''settlement_amount'', PTuple [settlement_amount t]),
        (''transaction_id'', transaction_id t), (''payment_method'', METHOD_PAYPAL),
        (''currency'', currency self), (''payment_frequency'', FREQUENCY_SINGLE)]
   \<and> bind_exn (CardPaymentView_get_transaction_details_for_session self
        \<lparr>cleaned_data = [(''amount'', a)], non_field_errors = []\<rparr>
        [(''payment_method_token'', tok), (''transaction_id'', transaction_id t),
         (''settlement_amount'', settlement_amount t), (''last_4'', credit_card_last_4 t)])
        (\<lambda>details. getitem details ''settlement_amount'') = Inr (settlement_amount t)"
  by (simp add: PaypalPaymentView_get_transaction_details_for_session_def
      CardPaymentView_get_transaction_details_for_session_def bind_exn_simps result_transaction_def
      getitem_def dict_get_def dict_update_def)

text \<open>
  C10. The claim is that the newsletter payload put on the queue is the form's fields
  with the source URL and the locale. The payload that
  \<^verbatim>\<open>NewsletterSignupView.form_valid\<close> puts on the queue is the form's cleaned data and
  nothing more: for a form with an email address alone, the payload has the email
  address alone, neither \<^verbatim>\<open>source_url\<close> nor \<^verbatim>\<open>lang\<close>.
\<close>

theorem C10_newsletter_payload_is_cleaned_data:
  "queue (snd (NewsletterSignupView_form_valid request f True w)) =
     queue w @ [(send_newsletter_subscription_to_basket, cleaned_data f)]
   \<and> queue (snd (NewsletterSignupView_form_valid
        \<lparr>LANGUAGE_CODE = PStr ''en-US'', get_full_path = PStr ''/en-US/newsletter-signup/'',
         COOKIES = [], http_method = POST,
         bound_form = \<lparr>cleaned_data = [(''email'', PStr ''alice@example.org'')], non_field_errors = []\<rparr>,
         form_is_valid = True\<rparr>
        \<lparr>cleaned_data = [(''email'', PStr ''alice@example.org'')], non_field_errors = []\<rparr>
        True (request_start example_card_session))) =
     [(send_newsletter_subscription_to_basket, [(''email'', PStr ''alice@example.org'')])]"
  by (simp add: NewsletterSignupView_form_valid_def enqueue_def Let_def request_start_def)

section \<open>Payment attempts: lemmas\<close>

lemma success_world:
  "gateway_calls (snd (success env request dfs sp url send w)) = gateway_calls w"
  "session_writes (snd (success env request (Inr d) sp url send w)) =
     session_writes w @ [''completed_transaction_details'', ''source_page_id'']"
  "map_of (session (snd (success env request (Inr d) sp url send w))) ''completed_transaction_details'' =
     Some (PDict (freeze_transaction_details_for_session env
                    (setitem (setitem d ''source_page_id'' sp) ''locale'' (LANGUAGE_CODE request))))"
  "snd (success env request (Inl e) sp url send w) = w"
  by (auto simp: success_def effect_defs Let_def setitem_def update_conv' split: sum.splits)

lemma create_customer_world:
  "session (snd (create_customer env f w)) = session w"
  "session_writes (snd (create_customer env f w)) = session_writes w"
  "queue (snd (create_customer env f w)) = queue w"
  "terminal_success (snd (create_customer env f w)) = terminal_success w"
  by (auto simp: create_customer_def effect_defs Let_def terminal_success_def is_terminal_def
      split: sum.splits result.splits prod.splits)

lemmas observe_defs = written_iff_success_def request_start_def details_written_def
  terminal_success_def is_terminal_def

lemma card_single_written_iff_success:
  "written_iff_success (process_single_transaction env request self f send) s"
proof (cases "create_customer env f (request_start s)")
  case (Pair r w1)
  with create_customer_world[of env f "request_start s"] show ?thesis
    unfolding process_single_transaction_def
    by (auto simp: observe_defs effect_defs Let_def success_world
        CardPaymentView_get_transaction_details_for_session_def bind_exn_def getitem_def
        split: sum.splits result.splits prod.splits list.splits)
qed

lemma card_monthly_written_iff_success:
  "written_iff_success (process_monthly_transaction env request self f send) s"
proof (cases "create_customer env f (request_start s)")
  case (Pair r w1)
  with create_customer_world[of env f "request_start s"] show ?thesis
    unfolding process_monthly_transaction_def
    by (auto simp: observe_defs effect_defs Let_def success_world
        CardPaymentView_get_transaction_details_for_session_def bind_exn_def getitem_def
        split: sum.splits result.splits prod.splits list.splits)
qed

lemma paypal_end_failed:
  "PaypalPaymentView_form_valid_end env request self f send (Failed r) w =
     (Inr (PaypalPaymentView_process_braintree_error_result r f),
      logger_error (''Failed Braintree transaction: '' @ message r) w)"
  by (simp add: PaypalPaymentView_form_valid_end_def)

lemma paypal_end_single:
  "payment_frequency self = FREQUENCY_SINGLE \<Longrightarrow> getitem (cleaned_data f) ''amount'' = Inr a \<Longrightarrow>
   PaypalPaymentView_form_valid_end env request self f send (SuccessfulResult (TransactionEntity t)) w =
     success env request
       (Inr [(''amount'', a), (''settlement_amount'', PTuple [settlement_amount t]),
             (''transaction_id'', transaction_id t), (''payment_method'', METHOD_PAYPAL),
             (''currency'', currency self), (''payment_frequency'', payment_frequency self)])
       (source_page_id self) (PaypalPaymentView_get_success_url self) send w"
  by (simp add: PaypalPaymentView_form_valid_end_def
      PaypalPaymentView_get_transaction_details_for_session_def bind_exn_def result_transaction_def)

lemma paypal_end_monthly:
  "payment_frequency self \<noteq> FREQUENCY_SINGLE \<Longrightarrow> getitem (cleaned_data f) ''amount'' = Inr a \<Longrightarrow>
   PaypalPaymentView_form_valid_end env request self f send (SuccessfulResult (SubscriptionEntity sub)) w =
     success env request
       (Inr [(''amount'', a), (''settlement_amount'', PNone),
             (''transaction_id'', subscription_id sub), (''payment_method'', METHOD_PAYPAL),
             (''currency'', currency self), (''payment_frequency'', payment_frequency self)])
       (source_page_id self) (PaypalPaymentView_get_success_url self) send w"
  by (simp add: PaypalPaymentView_form_valid_end_def
      PaypalPaymentView_get_transaction_details_for_session_def bind_exn_def result_subscription_def)

lemma paypal_written_iff_success:
  "written_iff_success (PaypalPaymentView_form_valid env request self f send) s"
proof (cases "getitem (cleaned_data f) ''frequency''")
  case (Inl e) then show ?thesis
    by (simp add: PaypalPaymentView_form_valid_def bind_exn_simps observe_defs)
next
  case fr: (Inr fr)
  show ?thesis
  proof (cases "getitem (cleaned_data f) ''currency''")
    case (Inl e) with fr show ?thesis
      by (simp add: PaypalPaymentView_form_valid_def bind_exn_simps observe_defs)
  next
    case cu: (Inr cu)
    show ?thesis
    proof (cases "getitem (cleaned_data f) ''source_page_id''")
      case (Inl e) with fr cu show ?thesis
        by (simp add: PaypalPaymentView_form_valid_def bind_exn_simps observe_defs)
    next
      case sp: (Inr sp)
      show ?thesis
      proof (cases "getitem (cleaned_data f) ''amount''")
        case (Inl e) with fr cu sp show ?thesis
          by (auto simp: PaypalPaymentView_form_valid_def bind_exn_simps observe_defs effect_defs
              Let_def bind_exn_def
              split: sum.splits result.splits prod.splits list.splits)
      next
        case amt: (Inr a)
        show ?thesis
        proof (cases "fr = FREQUENCY_SINGLE")
          case True
          with fr cu sp amt show ?thesis
            by (auto simp: PaypalPaymentView_form_valid_def bind_exn_simps observe_defs effect_defs
                Let_def paypal_end_failed paypal_end_single success_world bind_exn_def
                split: sum.splits result.splits prod.splits)
        next
          case False
          with fr cu sp amt show ?thesis
            by (auto simp: PaypalPaymentView_form_valid_def bind_exn_simps observe_defs effect_defs
                Let_def paypal_end_failed paypal_end_monthly success_world bind_exn_def
                split: sum.splits result.splits prod.splits list.splits)
        qed
      qed
    qed
  qed
qed

lemma card_upsell_written_iff_success:
  "written_iff_success (CardUpsellView_form_valid env request f send) s"
  unfolding CardUpsellView_form_valid_def
  by (auto simp: observe_defs effect_defs Let_def success_world
        CardUpsellView_get_transaction_details_for_session_def bind_exn_def getitem_def
        split: sum.splits result.splits prod.splits list.splits)

lemma paypal_upsell_written_iff_success:
  "written_iff_success (PaypalUpsellView_form_valid env request f send) s"
  unfolding PaypalUpsellView_form_valid_def
  by (auto simp: observe_defs effect_defs Let_def success_world
        PaypalUpsellView_get_transaction_details_for_session_def bind_exn_def
        split: sum.splits result.splits prod.splits list.splits)

section \<open>Payment attempts that go through: lemmas\<close>

lemma has_keys_simps:
  "has_keys d [] = True"
  "has_keys d (k # ks) = ((\<exists>v. getitem d k = Inr v) \<and> has_keys d ks)"
  by (auto simp: has_keys_def getitem_def split: option.splits)

lemma customer_accepted_not_failed:
  assumes "customer_accepted env"
  shows "customer_response env p \<noteq> Failed r"
proof
  assume "customer_response env p = Failed r"
  moreover from assms have "case customer_response env p of
      SuccessfulResult c \<Rightarrow> payment_methods c \<noteq> [] | Failed r \<Rightarrow> False"
    unfolding customer_accepted_def by (rule spec)
  ultimately show False by simp
qed

lemma customer_accepted_payment_method:
  assumes "customer_accepted env" and "customer_response env p = SuccessfulResult c"
  shows "payment_methods c \<noteq> []"
proof -
  from assms(1) have "case customer_response env p of
      SuccessfulResult c \<Rightarrow> payment_methods c \<noteq> [] | Failed r \<Rightarrow> False"
    unfolding customer_accepted_def by (rule spec)
  with assms(2) show ?thesis by simp
qed

lemma charge_accepted_not_failed:
  assumes "charge_accepted env"
  shows "transaction_response env p \<noteq> Failed r"
proof
  assume "transaction_response env p = Failed r"
  moreover from assms have "is_success (transaction_response env p)"
    unfolding charge_accepted_def by (rule spec)
  ultimately show False by simp
qed

lemma subscription_accepted_not_failed:
  assumes "subscription_accepted env"
  shows "subscription_response env p \<noteq> Failed r"
proof
  assume "subscription_response env p = Failed r"
  moreover from assms have "is_success (subscription_response env p)"
    unfolding subscription_accepted_def by (rule spec)
  ultimately show False by simp
qed

lemma currency_configuredD:
  "currency_configured env cu \<Longrightarrow> \<exists>mid plan. get_merchant_account_id env cu = Inr mid \<and> get_plan_id env cu = Inr plan"
  by (cases "get_merchant_account_id env cu"; cases "get_plan_id env cu")
     (auto simp: currency_configured_def)

lemma create_customer_accepted:
  assumes "has_keys (cleaned_data f)
             [''first_name'', ''last_name'', ''email'', ''braintree_nonce'',
              ''address_line_1'', ''town'', ''post_code'', ''country'']"
      and "customer_accepted env"
  shows "\<exists>c pm others w1. create_customer env f w = (Inr (SuccessfulResult c), w1)
           \<and> payment_methods c = pm # others
           \<and> session w1 = session w \<and> session_writes w1 = session_writes w
           \<and> terminal_success w1 = terminal_success w"
proof -
  from assms(1)
  obtain v1 v2 v3 v4 v5 v6 v7 v8 where g:
    "getitem (cleaned_data f) ''first_name'' = Inr v1"
    "getitem (cleaned_data f) ''last_name'' = Inr v2"
    "getitem (cleaned_data f) ''email'' = Inr v3"
    "getitem (cleaned_data f) ''braintree_nonce'' = Inr v4"
    "getitem (cleaned_data f) ''address_line_1'' = Inr v5"
    "getitem (cleaned_data f) ''town'' = Inr v6"
    "getitem (cleaned_data f) ''post_code'' = Inr v7"
    "getitem (cleaned_data f) ''country'' = Inr v8"
    by (auto simp: has_keys_simps)
  let ?p = "[(''first_name'', v1), (''last_name'', v2), (''email'', v3),
             (''payment_method_nonce'', v4), (''custom_fields'', PDict (get_custom_fields f)),
             (''credit_card'', PDict [(''billing_address'',
                PDict [(''street_address'', v5), (''locality'', v6),
                       (''postal_code'', v7), (''country_code_alpha2'', v8)])])]"
  obtain c where c: "customer_response env ?p = SuccessfulResult c"
    using customer_accepted_not_failed[OF assms(2), of ?p] by (cases "customer_response env ?p") auto
  with customer_accepted_payment_method[OF assms(2) c] obtain pm others where pm: "payment_methods c = pm # others"
    by (cases "payment_methods c") auto
  show ?thesis
    using g c pm
    by (simp add: create_customer_def get_address_info_def bind_exn_simps dict_get_def
        gateway_customer_create_def Let_def terminal_success_def is_terminal_def)
qed

lemma card_single_progress:
  assumes keys: "has_keys (cleaned_data f)
             [''first_name'', ''last_name'', ''email'', ''braintree_nonce'',
              ''address_line_1'', ''town'', ''post_code'', ''country'', ''amount'']"
      and cur: "currency_configured env (currency self)"
      and cust: "customer_accepted env" and ch: "charge_accepted env"
  shows "terminal_success (snd (process_single_transaction env request self f send (request_start s)))
       \<and> fst (process_single_transaction env request self f send (request_start s)) =
           Inr (HttpResponseRedirect (CardPaymentView_get_success_url self))"
proof -
  from keys have k8: "has_keys (cleaned_data f)
             [''first_name'', ''last_name'', ''email'', ''braintree_nonce'',
              ''address_line_1'', ''town'', ''post_code'', ''country'']"
    by (simp add: has_keys_simps)
  from create_customer_accepted[OF k8 cust, of "request_start s"]
  obtain c pm others w1 where cc: "create_customer env f (request_start s) = (Inr (SuccessfulResult c), w1)"
    and pm: "payment_methods c = pm # others" by blast
  from keys obtain a where a: "getitem (cleaned_data f) ''amount'' = Inr a"
    by (auto simp: has_keys_simps)
  from currency_configuredD[OF cur] obtain mid where mid: "get_merchant_account_id env (currency self) = Inr mid"
    by blast
  show ?thesis
    using cc pm a mid charge_accepted_not_failed[OF ch]
    by (auto simp: process_single_transaction_def bind_exn_simps gateway_transaction_sale_def Let_def
        success_def CardPaymentView_get_transaction_details_for_session_def getitem_def
        terminal_success_def is_terminal_def session_set_def enqueue_def
        split: result.splits)
qed

lemma card_monthly_progress:
  assumes keys: "has_keys (cleaned_data f)
             [''first_name'', ''last_name'', ''email'', ''braintree_nonce'',
              ''address_line_1'', ''town'', ''post_code'', ''country'', ''amount'']"
      and cur: "currency_configured env (currency self)"
      and cust: "customer_accepted env" and sub: "subscription_accepted env"
  shows "terminal_success (snd (process_monthly_transaction env request self f send (request_start s)))
       \<and> fst (process_monthly_transaction env request self f send (request_start s)) =
           Inr (HttpResponseRedirect (CardPaymentView_get_success_url self))"
proof -
  from keys have k8: "has_keys (cleaned_data f)
             [''first_name'', ''last_name'', ''email'', ''braintree_nonce'',
              ''address_line_1'', ''town'', ''post_code'', ''country'']"
    by (simp add: has_keys_simps)
  from create_customer_accepted[OF k8 cust, of "request_start s"]
  obtain c pm others w1 where cc: "create_customer env f (request_start s) = (Inr (SuccessfulResult c), w1)"
    and pm: "payment_methods c = pm # others" by blast
  from keys obtain a where a: "getitem (cleaned_data f) ''amount'' = Inr a"
    by (auto simp: has_keys_simps)
  from currency_configuredD[OF cur] obtain mid plan
    where mid: "get_merchant_account_id env (currency self) = Inr mid"
      and plan: "get_plan_id env (currency self) = Inr plan"
    by blast
  show ?thesis
    using cc pm a mid plan subscription_accepted_not_failed[OF sub]
    by (auto simp: process_monthly_transaction_def bind_exn_simps gateway_subscription_create_def Let_def
        success_def CardPaymentView_get_transaction_details_for_session_def getitem_def
        terminal_success_def is_terminal_def session_set_def enqueue_def
        split: result.splits)
qed

lemma paypal_single_progress:
  assumes fr: "map_of (cleaned_data f) ''frequency'' = Some FREQUENCY_SINGLE"
      and keys: "has_keys (cleaned_data f) [''currency'', ''source_page_id'', ''amount'', ''braintree_nonce'']"
      and cur: "currency_configured env (dict_get (cleaned_data f) ''currency'')"
      and ch: "charge_accepted env"
  shows "terminal_success (snd (PaypalPaymentView_form_valid env request self f send (request_start s)))
       \<and> fst (PaypalPaymentView_form_valid env request self f send (request_start s)) =
           Inr (HttpResponseRedirect (Named ''payments:paypal_upsell''))"
proof -
  from keys obtain cu sp a n where g:
    "getitem (cleaned_data f) ''currency'' = Inr cu"
    "getitem (cleaned_data f) ''source_page_id'' = Inr sp"
    "getitem (cleaned_data f) ''amount'' = Inr a"
    "getitem (cleaned_data f) ''braintree_nonce'' = Inr n"
    by (auto simp: has_keys_simps)
  from fr have gf: "getitem (cleaned_data f) ''frequency'' = Inr FREQUENCY_SINGLE"
    by (simp add: getitem_def)
  from g(1) have "dict_get (cleaned_data f) ''currency'' = cu"
    by (auto simp: getitem_def dict_get_def split: option.splits)
  with currency_configuredD[OF cur] obtain mid where mid: "get_merchant_account_id env cu = Inr mid"
    by auto
  show ?thesis
    using g gf mid charge_accepted_not_failed[OF ch]
    by (auto simp: PaypalPaymentView_form_valid_def bind_exn_simps gateway_transaction_sale_def Let_def
        paypal_end_single success_def PaypalPaymentView_get_success_url_def
        terminal_success_def is_terminal_def session_set_def enqueue_def
        split: result.splits)
qed

lemma paypal_monthly_progress:
  assumes fr: "map_of (cleaned_data f) ''frequency'' = Some fr" "fr \<noteq> FREQUENCY_SINGLE"
      and keys: "has_keys (cleaned_data f) [''currency'', ''source_page_id'', ''amount'', ''braintree_nonce'']"
      and cur: "currency_configured env (dict_get (cleaned_data f) ''currency'')"
      and cust: "customer_accepted env" and sub: "subscription_accepted env"
  shows "terminal_success (snd (PaypalPaymentView_form_valid env request self f send (request_start s)))
       \<and> fst (PaypalPaymentView_form_valid env request self f send (request_start s)) =
           Inr (HttpResponseRedirect (Named ''payments:newsletter_signup''))"
proof -
  from keys obtain cu sp a n where g:
    "getitem (cleaned_data f) ''currency'' = Inr cu"
    "getitem (cleaned_data f) ''source_page_id'' = Inr sp"
    "getitem (cleaned_data f) ''amount'' = Inr a"
    "getitem (cleaned_data f) ''braintree_nonce'' = Inr n"
    by (auto simp: has_keys_simps)
  from fr have gf: "getitem (cleaned_data f) ''frequency'' = Inr fr"
    by (simp add: getitem_def)
  from g(1) have "dict_get (cleaned_data f) ''currency'' = cu"
    by (auto simp: getitem_def dict_get_def split: option.splits)
  with currency_configuredD[OF cur] obtain mid plan
    where mid: "get_merchant_account_id env cu = Inr mid" and plan: "get_plan_id env cu = Inr plan"
    by auto
  let ?p = "[(''payment_method_nonce'', n), (''custom_fields'', PDict (get_custom_fields f))]"
  obtain c where c: "customer_response env ?p = SuccessfulResult c"
    using customer_accepted_not_failed[OF cust, of ?p] by (cases "customer_response env ?p") auto
  with customer_accepted_payment_method[OF cust c] obtain pm others where pm: "payment_methods c = pm # others"
    by (cases "payment_methods c") auto
  show ?thesis
    using g gf fr(2) mid plan c pm subscription_accepted_not_failed[OF sub]
    by (auto simp: PaypalPaymentView_form_valid_def bind_exn_simps gateway_subscription_create_def
        gateway_customer_create_def Let_def
        paypal_end_monthly success_def PaypalPaymentView_get_success_url_def
        terminal_success_def is_terminal_def session_set_def enqueue_def
        split: result.splits)
qed

lemma card_upsell_calls_exact:
  assumes "map_of s ''completed_transaction_details'' = Some (PDict details)"
      and "map_of details ''payment_method_token'' = Some tok"
      and "map_of details ''currency'' = Some cu"
      and "get_plan_id env cu = Inr plan"
      and "get_merchant_account_id env cu = Inr mid"
      and "map_of (cleaned_data f) ''amount'' = Some price"
  shows "gateway_calls (snd (CardUpsellView_form_valid env request f send (request_start s))) =
           [(Subscription_create
               [(''plan_id'', plan), (''merchant_account_id'', mid),
                (''payment_method_token'', tok),
                (''first_billing_date'', PDate (add_relativedelta_months (today env) 1)),
                (''price'', price)],
             is_success (subscription_response env
               [(''plan_id'', plan), (''merchant_account_id'', mid),
                (''payment_method_token'', tok),
                (''first_billing_date'', PDate (add_relativedelta_months (today env) 1)),
                (''price'', price)]))]"
  using assms
  by (auto simp: CardUpsellView_form_valid_def bind_exn_simps getitem_def subscript_def
      request_start_def gateway_subscription_create_def Let_def success_world logger_error_def
      split: result.splits)

lemma card_upsell_progress:
  assumes "map_of s ''completed_transaction_details'' = Some (PDict details)"
      and "has_keys details [''payment_method_token'', ''currency'']"
      and "currency_configured env (dict_get details ''currency'')"
      and "has_keys (cleaned_data f) [''amount'']"
      and sub: "subscription_accepted env"
  shows "terminal_success (snd (CardUpsellView_form_valid env request f send (request_start s)))
       \<and> fst (CardUpsellView_form_valid env request f send (request_start s)) =
           Inr (HttpResponseRedirect (Named ''payments:newsletter_signup''))"
proof -
  from assms(2) obtain tok cu where d: "map_of details ''payment_method_token'' = Some tok"
    "map_of details ''currency'' = Some cu"
    by (auto simp: has_keys_def)
  from assms(4) obtain price where a: "map_of (cleaned_data f) ''amount'' = Some price"
    by (auto simp: has_keys_def)
  from d(2) have "dict_get details ''currency'' = cu" by (simp add: dict_get_def)
  with currency_configuredD[OF assms(3)] obtain mid plan
    where mid: "get_merchant_account_id env cu = Inr mid" and plan: "get_plan_id env cu = Inr plan"
    by auto
  show ?thesis
    using assms(1) d a mid plan subscription_accepted_not_failed[OF sub]
    by (auto simp: CardUpsellView_form_valid_def bind_exn_simps getitem_def subscript_def
        request_start_def gateway_subscription_create_def Let_def success_def
        CardUpsellView_get_transaction_details_for_session_def
        terminal_success_def is_terminal_def session_set_def enqueue_def
        split: result.splits)
qed


lemma paypal_upsell_calls_exact:
  assumes "map_of (cleaned_data f) ''currency'' = Some cu"
      and "map_of (cleaned_data f) ''braintree_nonce'' = Some nonce"
      and "customer_response env [(''payment_method_nonce'', nonce), (''custom_fields'', PDict [])] =
             SuccessfulResult cust"
      and "payment_methods cust = pm # others"
      and "get_plan_id env cu = Inr plan"
      and "get_merchant_account_id env cu = Inr mid"
      and "map_of (cleaned_data f) ''amount'' = Some price"
  shows "gateway_calls (snd (PaypalUpsellView_form_valid env request f send (request_start s))) =
           [(Customer_create [(''payment_method_nonce'', nonce), (''custom_fields'', PDict [])], True),
            (Subscription_create
               [(''plan_id'', plan), (''merchant_account_id'', mid),
                (''payment_method_token'', token pm),
                (''first_billing_date'', PDate (add_relativedelta_months (today env) 1)),
                (''price'', price)],
             is_success (subscription_response env
               [(''plan_id'', plan), (''merchant_account_id'', mid),
                (''payment_method_token'', token pm),
                (''first_billing_date'', PDate (add_relativedelta_months (today env) 1)),
                (''price'', price)]))]"
  using assms
  by (auto simp: PaypalUpsellView_form_valid_def bind_exn_simps getitem_def get_custom_fields_def
      request_start_def gateway_subscription_create_def gateway_customer_create_def Let_def
      success_world logger_error_def
      split: result.splits)

lemma paypal_upsell_progress:
  assumes keys: "has_keys (cleaned_data f) [''currency'', ''braintree_nonce'', ''amount'']"
      and cur: "currency_configured env (dict_get (cleaned_data f) ''currency'')"
      and cust: "customer_accepted env" and sub: "subscription_accepted env"
  shows "terminal_success (snd (PaypalUpsellView_form_valid env request f send (request_start s)))
       \<and> fst (PaypalUpsellView_form_valid env request f send (request_start s)) =
           Inr (HttpResponseRedirect (Named ''payments:newsletter_signup''))"
proof -
  from keys obtain cu n a where g:
    "map_of (cleaned_data f) ''currency'' = Some cu"
    "map_of (cleaned_data f) ''braintree_nonce'' = Some n"
    "map_of (cleaned_data f) ''amount'' = Some a"
    by (auto simp: has_keys_def)
  from g(1) have "dict_get (cleaned_data f) ''currency'' = cu" by (simp add: dict_get_def)
  with currency_configuredD[OF cur] obtain mid plan
    where mid: "get_merchant_account_id env cu = Inr mid" and plan: "get_plan_id env cu = Inr plan"
    by auto
  let ?p = "[(''payment_method_nonce'', n), (''custom_fields'', PDict (get_custom_fields f))]"
  obtain c where c: "customer_response env ?p = SuccessfulResult c"
    using customer_accepted_not_failed[OF cust, of ?p] by (cases "customer_response env ?p") auto
  with customer_accepted_payment_method[OF cust c] obtain pm others where pm: "payment_methods c = pm # others"
    by (cases "payment_methods c") auto
  show ?thesis
    using g mid plan c pm subscription_accepted_not_failed[OF sub]
    by (auto simp: PaypalUpsellView_form_valid_def bind_exn_simps getitem_def
        gateway_subscription_create_def gateway_customer_create_def Let_def success_def
        PaypalUpsellView_get_transaction_details_for_session_def
        terminal_success_def is_terminal_def session_set_def enqueue_def request_start_def
        split: result.splits)
qed

lemmas card_flow_defs = process_single_transaction_def create_customer_def get_address_info_def
  get_custom_fields_def get_merchant_account_id_def get_plan_id_def success_def
  CardPaymentView_get_transaction_details_for_session_def CardPaymentView_get_success_url_def
  CardPaymentView_process_braintree_error_result_def CardPaymentView_form_invalid_def
  check_for_address_errors_def filter_user_card_errors_def client_errors_def address_errors_def
  add_error_def map_filter_def

lemma example_env_accepts:
  "customer_accepted example_env" "charge_accepted example_env" "subscription_accepted example_env"
  "currency_configured example_env (PStr ''usd'')"
  by (simp_all add: customer_accepted_def charge_accepted_def subscription_accepted_def
      currency_configured_def get_merchant_account_id_def get_plan_id_def getitem_val_def getitem_def
      example_env_def)

lemma declined_card_payment:
  "process_single_transaction declined_env example_request example_card_view
      example_card_form True (request_start []) =
      (Inr (FormResponse ''payment/card.html'' [''The credit card number you entered was invalid.''] None),
       \<lparr>session = [], session_writes = [],
        gateway_calls =
          [(Customer_create
              [(''first_name'', PStr ''Alice''), (''last_name'', PStr ''Bob''),
               (''email'', PStr ''alice@example.org''),
               (''payment_method_nonce'', PStr ''hello-braintree''),
               (''custom_fields'', PDict []),
               (''credit_card'',
                PDict [(''billing_address'',
                   PDict [(''street_address'', PStr ''1 Oak Tree Hill''),
                          (''locality'', PStr ''New York''),
                          (''postal_code'', PStr ''10022''),
                          (''country_code_alpha2'', PStr ''US'')])])], True),
           (Transaction_sale
              [(''amount'', PDecimal 50 0),
               (''merchant_account_id'', PStr ''usd-account''),
               (''payment_method_token'', PStr ''token-1''),
               (''options'', PDict [(''submit_for_settlement'', PBool True)])], False)],
        queue = [],
        logger = [''Failed Braintree transaction: Credit card number is invalid.'']\<rparr>)"
  by (simp add: card_flow_defs bind_exn_simps effect_defs example_defs constant_defs dict_defs
      request_start_def Let_def)

section \<open>Payment attempts: the claim\<close>

text \<open>
  C1. Each payment attempt, run from the start of a request on any session, with any
  gateway, settings, form and view: the single card payment, the monthly card payment
  (and \<^verbatim>\<open>CardPaymentView.form_valid\<close>, which is one or the other), the PayPal payment of
  either frequency, the card upsell and the PayPal upsell. The session slot
  \<^verbatim>\<open>completed_transaction_details\<close> is written exactly when the terminal gateway call (the
  charge or the subscription) was made and returned a success; the details are then in
  the session; in every other case, a gateway failure or an exception before the
  terminal call, the session is the one the request began with, nothing was written to
  it, and no transaction was put on the queue. And each of the six attempts goes all the
  way on the inputs it is made for: when the form (for the card upsell, also the session)
  has the fields the view reads, the settings know the currency and the gateway accepts
  the calls of the attempt, the terminal call is made and succeeds, the details are
  written and the response is the redirect to the next step.
\<close>

theorem C1_session_written_iff_gateway_success:
  "written_iff_success (process_single_transaction env request self f send) s
   \<and> written_iff_success (process_monthly_transaction env request self f send) s
   \<and> written_iff_success (CardPaymentView_form_valid env request self f send) s
   \<and> written_iff_success (PaypalPaymentView_form_valid env request self f send) s
   \<and> written_iff_success (CardUpsellView_form_valid env request f send) s
   \<and> written_iff_success (PaypalUpsellView_form_valid env request f send) s
   \<and> (has_keys (cleaned_data f)
         [''first_name'', ''last_name'', ''email'', ''braintree_nonce'',
          ''address_line_1'', ''town'', ''post_code'', ''country'', ''amount'']
       \<and> currency_configured env (currency self)
       \<and> customer_accepted env \<and> charge_accepted env \<longrightarrow>
         details_written (snd (process_single_transaction env request self f send (request_start s)))
       \<and> terminal_success (snd (process_single_transaction env request self f send (request_start s)))
       \<and> fst (process_single_transaction env request self f send (request_start s)) =
           Inr (HttpResponseRedirect (CardPaymentView_get_success_url self)))
   \<and> (has_keys (cleaned_data f)
         [''first_name'', ''last_name'', ''email'', ''braintree_nonce'',
          ''address_line_1'', ''town'', ''post_code'', ''country'', ''amount'']
       \<and> currency_configured env (currency self)
       \<and> customer_accepted env \<and> subscription_accepted env \<longrightarrow>
         details_written (snd (process_monthly_transaction env request self f send (request_start s)))
       \<and> terminal_success (snd (process_monthly_transaction env request self f send (request_start s)))
       \<and> fst (process_monthly_transaction env request self f send (request_start s)) =
           Inr (HttpResponseRedirect (CardPaymentView_get_success_url self)))
   \<and> (map_of (cleaned_data f) ''frequency'' = Some FREQUENCY_SINGLE
       \<and> has_keys (cleaned_data f) [''currency'', ''source_page_id'', ''amount'', ''braintree_nonce'']
       \<and> currency_configured env (dict_get (cleaned_data f) ''currency'')
       \<and> charge_accepted env \<longrightarrow>
         details_written (snd (PaypalPaymentView_form_valid env request self f send (request_start s)))
       \<and> terminal_success (snd (PaypalPaymentView_form_valid env request self f send (request_start s)))
       \<and> fst (PaypalPaymentView_form_valid env request self f send (request_start s)) =
           Inr (HttpResponseRedirect (Named ''payments:paypal_upsell'')))
   \<and> (has_keys (cleaned_data f)
         [''frequency'', ''currency'', ''source_page_id'', ''amount'', ''braintree_nonce'']
       \<and> dict_get (cleaned_data f) ''frequency'' \<noteq> FREQUENCY_SINGLE
       \<and> currency_configured env (dict_get (cleaned_data f) ''currency'')
       \<and> customer_accepted env \<and> subscription_accepted env \<longrightarrow>
         details_written (snd (PaypalPaymentView_form_valid env request self f send (request_start s)))
       \<and> terminal_success (snd (PaypalPaymentView_form_valid env request self f send (request_start s)))
       \<and> fst (PaypalPaymentView_form_valid env request self f send (request_start s)) =
           Inr (HttpResponseRedirect (Named ''payments:newsletter_signup'')))
   \<and> (map_of s ''completed_transaction_details'' = Some (PDict details)
       \<and> has_keys details [''payment_method_token'', ''currency'']
       \<and> currency_configured env (dict_get details ''currency'')
       \<and> has_keys (cleaned_data f) [''amount'']
       \<and> subscription_accepted env \<longrightarrow>
         details_written (snd (CardUpsellView_form_valid env request f send (request_start s)))
       \<and> terminal_success (snd (CardUpsellView_form_valid env request f send (request_start s)))
       \<and> fst (CardUpsellView_form_valid env request f send (request_start s)) =
           Inr (HttpResponseRedirect (Named ''payments:newsletter_signup'')))
   \<and> (has_keys (cleaned_data f) [''currency'', ''braintree_nonce'', ''amount'']
       \<and> currency_configured env (dict_get (cleaned_data f) ''currency'')
       \<and> customer_accepted env \<and> subscription_accepted env \<longrightarrow>
         details_written (snd (PaypalUpsellView_form_valid env request f send (request_start s)))
       \<and> terminal_success (snd (PaypalUpsellView_form_valid env request f send (request_start s)))
       \<and> fst (PaypalUpsellView_form_valid env request f send (request_start s)) =
           Inr (HttpResponseRedirect (Named ''payments:newsletter_signup'')))"
proof -
  have form_valid: "written_iff_success (CardPaymentView_form_valid env request self f send) s"
    using card_single_written_iff_success[of env request self f send s]
      card_monthly_written_iff_success[of env request self f send s]
    by (simp add: written_iff_success_def CardPaymentView_form_valid_def)
  have written: "details_written (snd (attempt (request_start s)))"
    if "written_iff_success attempt s" and "terminal_success (snd (attempt (request_start s)))"
    for attempt
    using that by (simp add: written_iff_success_def Let_def)
  have paypal_monthly:
    "terminal_success (snd (PaypalPaymentView_form_valid env request self f send (request_start s)))
     \<and> fst (PaypalPaymentView_form_valid env request self f send (request_start s)) =
           Inr (HttpResponseRedirect (Named ''payments:newsletter_signup''))"
    if k: "has_keys (cleaned_data f)
         [''frequency'', ''currency'', ''source_page_id'', ''amount'', ''braintree_nonce'']"
      and ne: "dict_get (cleaned_data f) ''frequency'' \<noteq> FREQUENCY_SINGLE"
      and c: "currency_configured env (dict_get (cleaned_data f) ''currency'')"
      and a: "customer_accepted env" "subscription_accepted env"
  proof -
    from k obtain fr where fr: "map_of (cleaned_data f) ''frequency'' = Some fr"
      by (auto simp: has_keys_def)
    with ne have "fr \<noteq> FREQUENCY_SINGLE" by (simp add: dict_get_def)
    moreover from k have "has_keys (cleaned_data f)
         [''currency'', ''source_page_id'', ''amount'', ''braintree_nonce'']"
      by (simp add: has_keys_def)
    ultimately show ?thesis
      using fr c a by (intro paypal_monthly_progress)
  qed
  have p1: "has_keys (cleaned_data f)
         [''first_name'', ''last_name'', ''email'', ''braintree_nonce'',
          ''address_line_1'', ''town'', ''post_code'', ''country'', ''amount'']
       \<and> currency_configured env (currency self)
       \<and> customer_accepted env \<and> charge_accepted env \<longrightarrow>
         details_written (snd (process_single_transaction env request self f send (request_start s)))
       \<and> terminal_success (snd (process_single_transaction env request self f send (request_start s)))
       \<and> fst (process_single_transaction env request self f send (request_start s)) =
           Inr (HttpResponseRedirect (CardPaymentView_get_success_url self))"
    using card_single_progress[of f env self request send s]
      written[OF card_single_written_iff_success[of env request self f send s]]
    by blast
  have p2: "has_keys (cleaned_data f)
         [''first_name'', ''last_name'', ''email'', ''braintree_nonce'',
          ''address_line_1'', ''town'', ''post_code'', ''country'', ''amount'']
       \<and> currency_configured env (currency self)
       \<and> customer_accepted env \<and> subscription_accepted env \<longrightarrow>
         details_written (snd (process_monthly_transaction env request self f send (request_start s)))
       \<and> terminal_success (snd (process_monthly_transaction env request self f send (request_start s)))
       \<and> fst (process_monthly_transaction env request self f send (request_start s)) =
           Inr (HttpResponseRedirect (CardPaymentView_get_success_url self))"
    using card_monthly_progress[of f env self request send s]
      written[OF card_monthly_written_iff_success[of env request self f send s]]
    by blast
  have p3: "map_of (cleaned_data f) ''frequency'' = Some FREQUENCY_SINGLE
       \<and> has_keys (cleaned_data f) [''currency'', ''source_page_id'', ''amount'', ''braintree_nonce'']
       \<and> currency_configured env (dict_get (cleaned_data f) ''currency'')
       \<and> charge_accepted env \<longrightarrow>
         details_written (snd (PaypalPaymentView_form_valid env request self f send (request_start s)))
       \<and> terminal_success (snd (PaypalPaymentView_form_valid env request self f send (request_start s)))
       \<and> fst (PaypalPaymentView_form_valid env request self f send (request_start s)) =
           Inr (HttpResponseRedirect (Named ''payments:paypal_upsell''))"
    using paypal_single_progress[of f env request self send s]
      written[OF paypal_written_iff_success[of env request self f send s]]
    by blast
  have p4: "has_keys (cleaned_data f)
         [''frequency'', ''currency'', ''source_page_id'', ''amount'', ''braintree_nonce'']
       \<and> dict_get (cleaned_data f) ''frequency'' \<noteq> FREQUENCY_SINGLE
       \<and> currency_configured env (dict_get (cleaned_data f) ''currency'')
       \<and> customer_accepted env \<and> subscription_accepted env \<longrightarrow>
         details_written (snd (PaypalPaymentView_form_valid env request self f send (request_start s)))
       \<and> terminal_success (snd (PaypalPaymentView_form_valid env request self f send (request_start s)))
       \<and> fst (PaypalPaymentView_form_valid env request self f send (request_start s)) =
           Inr (HttpResponseRedirect (Named ''payments:newsletter_signup''))"
    using paypal_monthly
      written[OF paypal_written_iff_success[of env request self f send s]]
    by blast
  have p5: "map_of s ''completed_transaction_details'' = Some (PDict details)
       \<and> has_keys details [''payment_method_token'', ''currency'']
       \<and> currency_configured env (dict_get details ''currency'')
       \<and> has_keys (cleaned_data f) [''amount'']
       \<and> subscription_accepted env \<longrightarrow>
         details_written (snd (CardUpsellView_form_valid env request f send (request_start s)))
       \<and> terminal_success (snd (CardUpsellView_form_valid env request f send (request_start s)))
       \<and> fst (CardUpsellView_form_valid env request f send (request_start s)) =
           Inr (HttpResponseRedirect (Named ''payments:newsletter_signup''))"
    using card_upsell_progress[of s details env f request send]
      written[OF card_upsell_written_iff_success[of env request f send s]]
    by blast
  have p6: "has_keys (cleaned_data f) [''currency'', ''braintree_nonce'', ''amount'']
       \<and> currency_configured env (dict_get (cleaned_data f) ''currency'')
       \<and> customer_accepted env \<and> subscription_accepted env \<longrightarrow>
         details_written (snd (PaypalUpsellView_form_valid env request f send (request_start s)))
       \<and> terminal_success (snd (PaypalUpsellView_form_valid env request f send (request_start s)))
       \<and> fst (PaypalUpsellView_form_valid env request f send (request_start s)) =
           Inr (HttpResponseRedirect (Named ''payments:newsletter_signup''))"
    using paypal_upsell_progress[of f env request send s]
      written[OF paypal_upsell_written_iff_success[of env request f send s]]
    by blast
  show ?thesis
    by (intro conjI)
       (rule form_valid card_single_written_iff_success card_monthly_written_iff_success
          paypal_written_iff_success card_upsell_written_iff_success
          paypal_upsell_written_iff_success p1 p2 p3 p4 p5 p6)+
qed

theorem C1_session_written_iff_gateway_success_witness:
  "details_written (snd (process_single_transaction example_env example_request example_card_view
      example_card_form True (request_start [])))
   \<and> details_written (snd (process_monthly_transaction example_env example_request example_monthly_view
      example_card_form True (request_start [])))
   \<and> details_written (snd (PaypalPaymentView_form_valid example_env example_request example_card_view
      example_paypal_form True (request_start [])))
   \<and> details_written (snd (PaypalPaymentView_form_valid example_env example_request example_card_view
      example_paypal_monthly_form True (request_start [])))
   \<and> details_written (snd (CardUpsellView_form_valid example_env example_request
      example_upsell_form True (request_start example_card_session)))
   \<and> details_written (snd (PaypalUpsellView_form_valid example_env example_request
      example_upsell_form True (request_start example_paypal_session)))
   \<and> \<not> details_written (snd (process_single_transaction declined_env example_request example_card_view
      example_card_form True (request_start [])))
   \<and> session (snd (process_single_transaction declined_env example_request example_card_view
      example_card_form True (request_start []))) = []
   \<and> fst (process_single_transaction declined_env example_request example_card_view
      example_card_form True (request_start [])) =
       Inr (FormResponse ''payment/card.html'' [''The credit card number you entered was invalid.''] None)"
proof -
  have card_keys: "has_keys (cleaned_data example_card_form)
         [''first_name'', ''last_name'', ''email'', ''braintree_nonce'',
          ''address_line_1'', ''town'', ''post_code'', ''country'', ''amount'']"
    by (simp add: has_keys_def example_card_form_def)
  have card_cur: "currency example_card_view = PStr ''usd''" "currency example_monthly_view = PStr ''usd''"
    by (simp_all add: example_card_view_def example_monthly_view_def)
  have w1: "details_written (snd (process_single_transaction example_env example_request example_card_view
      example_card_form True (request_start [])))"
    using C1_session_written_iff_gateway_success
      [of example_env example_request example_card_view example_card_form True "[]"]
      card_keys example_env_accepts
    by (simp add: card_cur)
  have w2: "details_written (snd (process_monthly_transaction example_env example_request example_monthly_view
      example_card_form True (request_start [])))"
    using C1_session_written_iff_gateway_success
      [of example_env example_request example_monthly_view example_card_form True "[]"]
      card_keys example_env_accepts
    by (simp add: card_cur)
  have paypal_keys:
    "map_of (cleaned_data example_paypal_form) ''frequency'' = Some FREQUENCY_SINGLE"
    "has_keys (cleaned_data example_paypal_form) [''currency'', ''source_page_id'', ''amount'', ''braintree_nonce'']"
    "dict_get (cleaned_data example_paypal_form) ''currency'' = PStr ''usd''"
    by (simp_all add: has_keys_def example_paypal_form_def FREQUENCY_SINGLE_def dict_get_def)
  have w3: "details_written (snd (PaypalPaymentView_form_valid example_env example_request example_card_view
      example_paypal_form True (request_start [])))"
    using C1_session_written_iff_gateway_success
      [of example_env example_request example_card_view example_paypal_form True "[]"]
      paypal_keys(1,2) example_env_accepts
    by (simp add: paypal_keys(3))
  have paypal_monthly_keys:
    "has_keys (cleaned_data example_paypal_monthly_form)
       [''frequency'', ''currency'', ''source_page_id'', ''amount'', ''braintree_nonce'']"
    "dict_get (cleaned_data example_paypal_monthly_form) ''frequency'' \<noteq> FREQUENCY_SINGLE"
    "dict_get (cleaned_data example_paypal_monthly_form) ''currency'' = PStr ''usd''"
    by (simp_all add: has_keys_def example_paypal_monthly_form_def FREQUENCY_SINGLE_def dict_get_def)
  have w4: "details_written (snd (PaypalPaymentView_form_valid example_env example_request example_card_view
      example_paypal_monthly_form True (request_start [])))"
    using C1_session_written_iff_gateway_success
      [of example_env example_request example_card_view example_paypal_monthly_form True "[]"]
      paypal_monthly_keys(1,2) example_env_accepts
    by (simp add: paypal_monthly_keys(3))
  have upsell_keys:
    "map_of example_card_session ''completed_transaction_details'' = Some (PDict example_card_details)"
    "has_keys example_card_details [''payment_method_token'', ''currency'']"
    "dict_get example_card_details ''currency'' = PStr ''usd''"
    "has_keys (cleaned_data example_upsell_form) [''amount'']"
    "has_keys (cleaned_data example_upsell_form) [''currency'', ''braintree_nonce'', ''amount'']"
    "dict_get (cleaned_data example_upsell_form) ''currency'' = PStr ''usd''"
    by (simp_all add: has_keys_def example_card_session_def example_card_details_def
        example_upsell_form_def dict_get_def)
  have w5: "details_written (snd (CardUpsellView_form_valid example_env example_request
      example_upsell_form True (request_start example_card_session)))"
    using C1_session_written_iff_gateway_success
      [of example_env example_request example_card_view example_upsell_form True example_card_session
          example_card_details]
      upsell_keys(1,2,4) example_env_accepts
    by (simp add: upsell_keys(3))
  have w6: "details_written (snd (PaypalUpsellView_form_valid example_env example_request
      example_upsell_form True (request_start example_paypal_session)))"
    using C1_session_written_iff_gateway_success
      [of example_env example_request example_card_view example_upsell_form True example_paypal_session]
      upsell_keys(5) example_env_accepts
    by (simp add: upsell_keys(6))
  have w7: "\<not> details_written (snd (process_single_transaction declined_env example_request
      example_card_view example_card_form True (request_start [])))"
    using C1_session_written_iff_gateway_success
      [of declined_env example_request example_card_view example_card_form True "[]"]
    by (simp add: written_iff_success_def Let_def declined_card_payment terminal_success_def
        is_terminal_def details_written_def)
  show ?thesis
    using w1 w2 w3 w4 w5 w6 w7 by (simp add: declined_card_payment)
qed

section \<open>The upsell submissions\<close>

lemma month_cases:
  "1 \<le> m \<Longrightarrow> m \<le> 12 \<Longrightarrow> m \<in> {1, 2, 3, 4, 5, 6, 7, 8, 9, 10, 11, 12::int}"
  by simp arith

lemma monthrange_days_bounds:
  assumes "1 \<le> m" "m \<le> 12"
  shows "28 \<le> monthrange_days y m \<and> monthrange_days y m \<le> 31"
  using month_cases[OF assms] by (auto simp: monthrange_days_def mdays_def)

lemma monthrange_days_spec:
  assumes "1 \<le> m" "m \<le> 12"
  shows "monthrange_days y m = spec_last_day_of_month y m"
  using month_cases[OF assms]
  by (auto simp: monthrange_days_def mdays_def isleap_def spec_last_day_of_month_def)

lemma add_one_month_spec:
  assumes "1 \<le> month d" "month d \<le> 12"
  shows "add_relativedelta_months d 1 = spec_one_calendar_month_after d"
proof (cases "month d = 12")
  case True
  with monthrange_days_spec[of 1 "year d + 1"] show ?thesis
    by (simp add: add_relativedelta_months_def spec_one_calendar_month_after_def Let_def min_def)
next
  case False
  with assms have "1 \<le> month d + 1" "month d + 1 \<le> 12" by auto
  from monthrange_days_spec[OF this, of "year d"] False assms show ?thesis
    by (simp add: add_relativedelta_months_def spec_one_calendar_month_after_def Let_def min_def)
qed

lemma add_one_month_valid:
  assumes "valid_date d"
  shows "valid_date (add_relativedelta_months d 1)"
proof -
  from assms have m: "1 \<le> month d" "month d \<le> 12" and dd: "1 \<le> day d"
    by (auto simp: valid_date_def)
  show ?thesis
  proof (cases "month d = 12")
    case True
    with dd monthrange_days_bounds[of 1 "year d + 1"] show ?thesis
      by (auto simp: valid_date_def add_relativedelta_months_def Let_def min_def)
  next
    case False
    with m have "1 \<le> month d + 1" "month d + 1 \<le> 12" by auto
    from monthrange_days_bounds[OF this, of "year d"] False m dd show ?thesis
      by (auto simp: valid_date_def add_relativedelta_months_def Let_def min_def)
  qed
qed

lemma card_upsell_calls:
  "(c, ok) \<in> set (gateway_calls (snd (CardUpsellView_form_valid env request f send (request_start s)))) \<Longrightarrow>
   \<exists>params details tok.
      c = Subscription_create params
    \<and> map_of s ''completed_transaction_details'' = Some (PDict details)
    \<and> map_of details ''payment_method_token'' = Some tok
    \<and> map_of params ''payment_method_token'' = Some tok
    \<and> map_of params ''first_billing_date'' = Some (PDate (add_relativedelta_months (today env) 1))"
  unfolding CardUpsellView_form_valid_def
  by (auto simp: request_start_def effect_defs Let_def success_world bind_exn_def getitem_def subscript_def
      split: sum.splits result.splits prod.splits option.splits pyval.splits)

lemma paypal_upsell_calls:
  "(c, ok) \<in> set (gateway_calls (snd (PaypalUpsellView_form_valid env request f send (request_start s)))) \<Longrightarrow>
   \<exists>nonce. map_of (cleaned_data f) ''braintree_nonce'' = Some nonce
     \<and> (c = Customer_create [(''payment_method_nonce'', nonce), (''custom_fields'', PDict [])]
        \<or> (\<exists>params cust pm others. c = Subscription_create params
             \<and> customer_response env [(''payment_method_nonce'', nonce), (''custom_fields'', PDict [])] =
                 SuccessfulResult cust
             \<and> payment_methods cust = pm # others
             \<and> map_of params ''payment_method_token'' = Some (token pm)
             \<and> map_of params ''first_billing_date'' = Some (PDate (add_relativedelta_months (today env) 1))))"
  unfolding PaypalUpsellView_form_valid_def
  by (auto simp: request_start_def effect_defs Let_def success_world bind_exn_def getitem_def
      get_custom_fields_def
      split: sum.splits result.splits prod.splits option.splits list.splits)


lemmas upsell_flow_defs = CardUpsellView_form_valid_def PaypalUpsellView_form_valid_def
  CardUpsellView_get_transaction_details_for_session_def
  PaypalUpsellView_get_transaction_details_for_session_def
  get_custom_fields_def get_merchant_account_id_def get_plan_id_def success_def
  add_relativedelta_months_def monthrange_days_def mdays_def isleap_def

lemma card_upsell_example:
  "gateway_calls (snd (CardUpsellView_form_valid example_env example_request example_upsell_form True
     (request_start example_card_session))) =
     [(Subscription_create
         [(''plan_id'', PStr ''usd-plan''), (''merchant_account_id'', PStr ''usd-account''),
          (''payment_method_token'', PStr ''token-of-the-card''),
          (''first_billing_date'', PDate (Date 2019 2 28)),
          (''price'', PDecimal 5 0)], True)]"
  by (simp add: upsell_flow_defs bind_exn_simps effect_defs example_defs constant_defs dict_defs
      request_start_def Let_def)





text \<open>
  C6. When today is a date of the calendar, the date one month later that the upsell
  views compute is the date of the specification (the next month, on the same day or on
  the last day of that month when it is shorter), it is a date of the calendar, and
  every subscription that the card upsell or the PayPal upsell creates carries it as its
  \<^verbatim>\<open>first_billing_date\<close>. Both do create one: the card upsell when the session holds the
  token and the currency, the PayPal upsell when the form has the currency and the nonce
  and the gateway returns the new customer with a payment method, each with a currency
  the settings know and an amount in the form; the call list then ends with the
  subscription that carries this date. January 31 goes to February 28 in 2019 and to
  February 29 in 2020.
\<close>

theorem C6_first_billing_date_one_month_later:
  assumes "valid_date (today env)"
  shows "add_relativedelta_months (today env) 1 = spec_one_calendar_month_after (today env)
       \<and> valid_date (spec_one_calendar_month_after (today env))
       \<and> (\<forall>call \<in> set (gateway_calls (snd (CardUpsellView_form_valid env request f send (request_start s)))).
            \<forall>params. fst call = Subscription_create params \<longrightarrow>
              map_of params ''first_billing_date'' =
                Some (PDate (spec_one_calendar_month_after (today env))))
       \<and> (\<forall>call \<in> set (gateway_calls (snd (PaypalUpsellView_form_valid env request f send (request_start s)))).
            \<forall>params. fst call = Subscription_create params \<longrightarrow>
              map_of params ''first_billing_date'' =
                Some (PDate (spec_one_calendar_month_after (today env))))
       \<and> (map_of s ''completed_transaction_details'' = Some (PDict details)
           \<and> map_of details ''payment_method_token'' = Some tok
           \<and> map_of details ''currency'' = Some cu0
           \<and> get_plan_id env cu0 = Inr plan0
           \<and> get_merchant_account_id env cu0 = Inr mid0
           \<and> map_of (cleaned_data f) ''amount'' = Some price \<longrightarrow>
             (\<exists>ok. gateway_calls (snd (CardUpsellView_form_valid env request f send (request_start s))) =
               [(Subscription_create
                   [(''plan_id'', plan0), (''merchant_account_id'', mid0),
                    (''payment_method_token'', tok),
                    (''first_billing_date'', PDate (spec_one_calendar_month_after (today env))),
                    (''price'', price)], ok)]))
       \<and> (map_of (cleaned_data f) ''currency'' = Some cu
           \<and> map_of (cleaned_data f) ''braintree_nonce'' = Some nonce
           \<and> customer_response env [(''payment_method_nonce'', nonce), (''custom_fields'', PDict [])] =
                 SuccessfulResult cust
           \<and> payment_methods cust = pm # others
           \<and> get_plan_id env cu = Inr plan
           \<and> get_merchant_account_id env cu = Inr mid
           \<and> map_of (cleaned_data f) ''amount'' = Some price \<longrightarrow>
             (\<exists>ok. gateway_calls (snd (PaypalUpsellView_form_valid env request f send (request_start s))) =
               [(Customer_create [(''payment_method_nonce'', nonce), (''custom_fields'', PDict [])], True),
                (Subscription_create
                   [(''plan_id'', plan), (''merchant_account_id'', mid),
                    (''payment_method_token'', token pm),
                    (''first_billing_date'', PDate (spec_one_calendar_month_after (today env))),
                    (''price'', price)], ok)]))"
proof -
  from assms have m: "1 \<le> month (today env)" "month (today env) \<le> 12"
    by (auto simp: valid_date_def)
  have eq: "add_relativedelta_months (today env) 1 = spec_one_calendar_month_after (today env)"
    using m by (rule add_one_month_spec)
  have v: "valid_date (spec_one_calendar_month_after (today env))"
    using add_one_month_valid[OF assms] eq by simp
  have card: "map_of params ''first_billing_date'' = Some (PDate (spec_one_calendar_month_after (today env)))"
    if "call \<in> set (gateway_calls (snd (CardUpsellView_form_valid env request f send (request_start s))))"
      and "fst call = Subscription_create params" for call params
  proof -
    from that(1) have "(fst call, snd call) \<in> set (gateway_calls (snd (CardUpsellView_form_valid env request f send (request_start s))))"
      by simp
    from card_upsell_calls[OF this] that(2) eq show ?thesis by auto
  qed
  have paypal: "map_of params ''first_billing_date'' = Some (PDate (spec_one_calendar_month_after (today env)))"
    if "call \<in> set (gateway_calls (snd (PaypalUpsellView_form_valid env request f send (request_start s))))"
      and "fst call = Subscription_create params" for call params
  proof -
    from that(1) have "(fst call, snd call) \<in> set (gateway_calls (snd (PaypalUpsellView_form_valid env request f send (request_start s))))"
      by simp
    from paypal_upsell_calls[OF this] that(2) eq show ?thesis by auto
  qed
  have c3: "\<forall>call \<in> set (gateway_calls (snd (CardUpsellView_form_valid env request f send (request_start s)))).
            \<forall>params. fst call = Subscription_create params \<longrightarrow>
              map_of params ''first_billing_date'' =
                Some (PDate (spec_one_calendar_month_after (today env)))"
    using card by blast
  have c4: "\<forall>call \<in> set (gateway_calls (snd (PaypalUpsellView_form_valid env request f send (request_start s)))).
            \<forall>params. fst call = Subscription_create params \<longrightarrow>
              map_of params ''first_billing_date'' =
                Some (PDate (spec_one_calendar_month_after (today env)))"
    using paypal by blast
  have c5: "map_of s ''completed_transaction_details'' = Some (PDict details)
           \<and> map_of details ''payment_method_token'' = Some tok
           \<and> map_of details ''currency'' = Some cu0
           \<and> get_plan_id env cu0 = Inr plan0
           \<and> get_merchant_account_id env cu0 = Inr mid0
           \<and> map_of (cleaned_data f) ''amount'' = Some price \<longrightarrow>
             (\<exists>ok. gateway_calls (snd (CardUpsellView_form_valid env request f send (request_start s))) =
               [(Subscription_create
                   [(''plan_id'', plan0), (''merchant_account_id'', mid0),
                    (''payment_method_token'', tok),
                    (''first_billing_date'', PDate (spec_one_calendar_month_after (today env))),
                    (''price'', price)], ok)])"
    using card_upsell_calls_exact[of s details tok cu0 env plan0 mid0 f price request send]
    unfolding eq by blast
  have c6: "map_of (cleaned_data f) ''currency'' = Some cu
           \<and> map_of (cleaned_data f) ''braintree_nonce'' = Some nonce
           \<and> customer_response env [(''payment_method_nonce'', nonce), (''custom_fields'', PDict [])] =
                 SuccessfulResult cust
           \<and> payment_methods cust = pm # others
           \<and> get_plan_id env cu = Inr plan
           \<and> get_merchant_account_id env cu = Inr mid
           \<and> map_of (cleaned_data f) ''amount'' = Some price \<longrightarrow>
             (\<exists>ok. gateway_calls (snd (PaypalUpsellView_form_valid env request f send (request_start s))) =
               [(Customer_create [(''payment_method_nonce'', nonce), (''custom_fields'', PDict [])], True),
                (Subscription_create
                   [(''plan_id'', plan), (''merchant_account_id'', mid),
                    (''payment_method_token'', token pm),
                    (''first_billing_date'', PDate (spec_one_calendar_month_after (today env))),
                    (''price'', price)], ok)])"
    using paypal_upsell_calls_exact[of f cu nonce env cust pm others plan mid price request send s]
    unfolding eq by blast
  show ?thesis
    by (intro conjI) (rule eq v c3 c4 c5 c6)+
qed

theorem C6_first_billing_date_one_month_later_witness:
  "valid_date (Date 2019 1 31)
   \<and> spec_one_calendar_month_after (Date 2019 1 31) = Date 2019 2 28
   \<and> add_relativedelta_months (Date 2020 1 31) 1 = Date 2020 2 29
   \<and> add_relativedelta_months (Date 2019 12 15) 1 = Date 2020 1 15
   \<and> gateway_calls (snd (CardUpsellView_form_valid example_env example_request example_upsell_form True
       (request_start example_card_session))) =
       [(Subscription_create
           [(''plan_id'', PStr ''usd-plan''), (''merchant_account_id'', PStr ''usd-account''),
            (''payment_method_token'', PStr ''token-of-the-card''),
            (''first_billing_date'', PDate (Date 2019 2 28)),
            (''price'', PDecimal 5 0)], True)]
   \<and> gateway_calls (snd (PaypalUpsellView_form_valid (example_env\<lparr>today := Date 2020 1 31\<rparr>)
       example_request example_upsell_form True (request_start example_paypal_session))) =
       [(Customer_create
           [(''payment_method_nonce'', PStr ''hello-again''), (''custom_fields'', PDict [])], True),
        (Subscription_create
           [(''plan_id'', PStr ''usd-plan''), (''merchant_account_id'', PStr ''usd-account''),
            (''payment_method_token'', PStr ''token-1''),
            (''first_billing_date'', PDate (Date 2020 2 29)),
            (''price'', PDecimal 5 0)], True)]"
proof -
  let ?leap = "example_env\<lparr>today := Date 2020 1 31\<rparr>"
  let ?dec = "example_env\<lparr>today := Date 2019 12 15\<rparr>"
  have t: "today example_env = Date 2019 1 31" "today ?leap = Date 2020 1 31"
    "today ?dec = Date 2019 12 15"
    by (simp_all add: example_env_def)
  have d1: "valid_date (Date 2019 1 31)" "valid_date (Date 2020 1 31)" "valid_date (Date 2019 12 15)"
    by (simp_all add: valid_date_def monthrange_days_def mdays_def)
  have d2: "spec_one_calendar_month_after (Date 2019 1 31) = Date 2019 2 28"
    "spec_one_calendar_month_after (Date 2020 1 31) = Date 2020 2 29"
    "spec_one_calendar_month_after (Date 2019 12 15) = Date 2020 1 15"
    by (simp_all add: spec_one_calendar_month_after_def spec_last_day_of_month_def Let_def)
  have v: "valid_date (today example_env)" "valid_date (today ?leap)" "valid_date (today ?dec)"
    by (simp_all only: t d1)
  have env: "get_plan_id example_env (PStr ''usd'') = Inr (PStr ''usd-plan'')"
    "get_merchant_account_id example_env (PStr ''usd'') = Inr (PStr ''usd-account'')"
    "get_plan_id ?leap (PStr ''usd'') = Inr (PStr ''usd-plan'')"
    "get_merchant_account_id ?leap (PStr ''usd'') = Inr (PStr ''usd-account'')"
    "\<And>p. subscription_response example_env p = SuccessfulResult (Subscription (PStr ''subscription-1''))"
    "\<And>p. subscription_response ?leap p = SuccessfulResult (Subscription (PStr ''subscription-1''))"
    "\<And>p. customer_response ?leap p =
       SuccessfulResult (Customer [PaymentMethod (PStr ''token-1'') (PStr ''1111'')])"
    by (simp_all add: get_plan_id_def get_merchant_account_id_def getitem_val_def getitem_def
        example_env_def)
  have card: "map_of example_card_session ''completed_transaction_details'' = Some (PDict example_card_details)"
    "map_of example_card_details ''payment_method_token'' = Some (PStr ''token-of-the-card'')"
    "map_of example_card_details ''currency'' = Some (PStr ''usd'')"
    by (simp_all add: example_card_session_def example_card_details_def)
  have form: "map_of (cleaned_data example_upsell_form) ''amount'' = Some (PDecimal 5 0)"
    "map_of (cleaned_data example_upsell_form) ''currency'' = Some (PStr ''usd'')"
    "map_of (cleaned_data example_upsell_form) ''braintree_nonce'' = Some (PStr ''hello-again'')"
    by (simp_all add: example_upsell_form_def)
  note c6 = C6_first_billing_date_one_month_later
  have a3: "add_relativedelta_months (Date 2020 1 31) 1 = Date 2020 2 29"
    using c6[OF v(2), of example_request example_upsell_form True "[]"]
    by (simp add: t d2)
  have a4: "add_relativedelta_months (Date 2019 12 15) 1 = Date 2020 1 15"
    using c6[OF v(3), of example_request example_upsell_form True "[]"]
    by (simp add: t d2)
  have w1: "gateway_calls (snd (CardUpsellView_form_valid example_env example_request example_upsell_form True
       (request_start example_card_session))) =
       [(Subscription_create
           [(''plan_id'', PStr ''usd-plan''), (''merchant_account_id'', PStr ''usd-account''),
            (''payment_method_token'', PStr ''token-of-the-card''),
            (''first_billing_date'', PDate (Date 2019 2 28)),
            (''price'', PDecimal 5 0)], True)]"
  proof -
    from c6[OF v(1), where s=example_card_session and details=example_card_details
          and tok="PStr ''token-of-the-card''" and ?cu0.0="PStr ''usd''"
          and ?plan0.0="PStr ''usd-plan''" and ?mid0.0="PStr ''usd-account''"
          and f=example_upsell_form and price="PDecimal 5 0" and request=example_request
          and send=True and cu="PStr ''usd''" and nonce="PStr ''hello-again''"
          and cust="Customer [PaymentMethod (PStr ''token-1'') (PStr ''1111'')]"
          and pm="PaymentMethod (PStr ''token-1'') (PStr ''1111'')" and others="[]"
          and plan="PStr ''usd-plan''" and mid="PStr ''usd-account''"]
      card form(1) env(1,2)
    obtain ok where calls: "gateway_calls (snd (CardUpsellView_form_valid example_env example_request
         example_upsell_form True (request_start example_card_session))) =
       [(Subscription_create
           [(''plan_id'', PStr ''usd-plan''), (''merchant_account_id'', PStr ''usd-account''),
            (''payment_method_token'', PStr ''token-of-the-card''),
            (''first_billing_date'', PDate (Date 2019 2 28)),
            (''price'', PDecimal 5 0)], ok)]"
      by (auto simp: t d2)
    with card_upsell_example show ?thesis by simp
  qed
  have w2: "gateway_calls (snd (PaypalUpsellView_form_valid ?leap
       example_request example_upsell_form True (request_start example_paypal_session))) =
       [(Customer_create
           [(''payment_method_nonce'', PStr ''hello-again''), (''custom_fields'', PDict [])], True),
        (Subscription_create
           [(''plan_id'', PStr ''usd-plan''), (''merchant_account_id'', PStr ''usd-account''),
            (''payment_method_token'', PStr ''token-1''),
            (''first_billing_date'', PDate (Date 2020 2 29)),
            (''price'', PDecimal 5 0)], True)]"
  proof -
    from c6[OF v(2), where s=example_paypal_session and f=example_upsell_form
          and price="PDecimal 5 0" and cu="PStr ''usd''" and nonce="PStr ''hello-again''"
          and cust="Customer [PaymentMethod (PStr ''token-1'') (PStr ''1111'')]"
          and pm="PaymentMethod (PStr ''token-1'') (PStr ''1111'')" and others="[]"
          and plan="PStr ''usd-plan''" and mid="PStr ''usd-account''"
          and request=example_request and send=True and details="[]" and tok=PNone
          and ?cu0.0=PNone and ?plan0.0=PNone and ?mid0.0=PNone]
      form env(3,4,7)
    obtain ok where calls: "gateway_calls (snd (PaypalUpsellView_form_valid ?leap example_request
         example_upsell_form True (request_start example_paypal_session))) =
       [(Customer_create
           [(''payment_method_nonce'', PStr ''hello-again''), (''custom_fields'', PDict [])], True),
        (Subscription_create
           [(''plan_id'', PStr ''usd-plan''), (''merchant_account_id'', PStr ''usd-account''),
            (''payment_method_token'', PStr ''token-1''),
            (''first_billing_date'', PDate (Date 2020 2 29)),
            (''price'', PDecimal 5 0)], ok)]"
      by (auto simp: t d2)
    have "ok = True"
      using paypal_upsell_calls_exact[of example_upsell_form "PStr ''usd''" "PStr ''hello-again''" ?leap
          "Customer [PaymentMethod (PStr ''token-1'') (PStr ''1111'')]"
          "PaymentMethod (PStr ''token-1'') (PStr ''1111'')" "[]"
          "PStr ''usd-plan''" "PStr ''usd-account''" "PDecimal 5 0" example_request True
          example_paypal_session]
        form env(3,4,6,7) calls
      by simp
    with calls show ?thesis by simp
  qed
  show ?thesis using d1(1) d2(1) a3 a4 w1 w2 by simp
qed

end
